theory Spec2Isabelle
  imports Main "HOL-Library.Word"
begin

section \<open>The JNI binder glue of core/jni/android\_util\_Binder.cpp\<close>

text \<open>
  The development embeds the proxy runtime of \<^verbatim>\<open>android_util_Binder.cpp\<close>: the status
  codes and their translation into Java exceptions, the transact path of a BinderProxy,
  the dispatch of an incoming transaction into a Java Binder, the death-recipient
  bookkeeping and the uniquing of BinderProxy objects.

  Native pointers and Java references are addresses into typed stores; a null pointer
  or reference is \<open>None\<close>. A call that the C++ code would make through a null or
  dangling pointer has no defined behaviour and is the outcome \<open>Undefined\<close>; a call to
  \<^verbatim>\<open>FatalError\<close> ends the process and is the outcome \<open>Aborted\<close>.
\<close>

subsection \<open>Basic types\<close>

type_synonym jobject = nat
type_synonym addr = nat
type_synonym jint = "32 word"

datatype 'a exec = Returned 'a | Aborted | Undefined

text \<open>A Java throwable as the native code sees it: its class and its detail message.\<close>

datatype jthrowable = JThrowable string "string option"

subsection \<open>Status codes\<close>

text \<open>
  The codes named by the switch of \<^verbatim>\<open>signalExceptionForError\<close>. Their numeric values
  are declared in utils/Errors.h and errno.h, outside this repository; the switch
  compiles only if they are pairwise distinct, which is all the model keeps of them.
  \<open>OTHER_STATUS c\<close> stands for a raw code \<open>c\<close> that is none of the named ones.
\<close>

datatype status_t =
    NO_ERROR
  | UNKNOWN_ERROR
  | NO_MEMORY
  | INVALID_OPERATION
  | BAD_VALUE
  | BAD_INDEX
  | BAD_TYPE
  | NAME_NOT_FOUND
  | PERMISSION_DENIED
  | NOT_ENOUGH_DATA
  | NO_INIT
  | ALREADY_EXISTS
  | DEAD_OBJECT
  | UNKNOWN_TRANSACTION
  | FAILED_TRANSACTION
  | FDS_NOT_ALLOWED
  | UNEXPECTED_NULL
  | NEG_EBADF
  | NEG_ENFILE
  | NEG_EMFILE
  | NEG_EFBIG
  | NEG_ENOSPC
  | NEG_ESPIPE
  | NEG_EROFS
  | NEG_EMLINK
  | OTHER_STATUS jint

subsection \<open>printf conversions used in exception messages\<close>

definition digit_char :: "nat \<Rightarrow> char" where
  "digit_char d = (''0123456789abcdef'' ! (d mod 16))"

function show_nat :: "nat \<Rightarrow> nat \<Rightarrow> string" where
  "show_nat b n =
     (if b < 2 \<or> n < b then [digit_char n]
      else show_nat b (n div b) @ [digit_char (n mod b)])"
  by pat_completeness auto
termination
  by (relation "measure (\<lambda>(b, n). n)") auto

text \<open>\<^verbatim>\<open>%d\<close> of a 32-bit int and \<^verbatim>\<open>%x\<close> of the same bits.\<close>

definition printf_d :: "jint \<Rightarrow> string" where
  "printf_d i =
     (if sint i < 0 then CHR ''-'' # show_nat 10 (nat (- sint i))
      else show_nat 10 (nat (sint i)))"

definition printf_x :: "jint \<Rightarrow> string" where
  "printf_x i = show_nat 16 (unat i)"

subsection \<open>Objects and process state\<close>

text \<open>
  The Java objects whose fields the native code reads: a \<^verbatim>\<open>Binder\<close> holds the address
  of its JavaBBinderHolder in \<^verbatim>\<open>mObject\<close>, a \<^verbatim>\<open>BinderProxy\<close> the address of its
  BinderProxyNativeData in \<^verbatim>\<open>mNativeData\<close>.
\<close>

datatype jobj = JBinder addr | JBinderProxy addr | JOther

text \<open>
  The native binder objects. \<^verbatim>\<open>checkSubclass(&gBinderOffsets)\<close> holds of a JavaBBinder only;
  \<^verbatim>\<open>localBinder()\<close> is non-null for every BBinder and null for a BpBinder.
\<close>

datatype IBinder = JavaBBinder jobject | BBinder | BpBinder

fun checkSubclass_gBinderOffsets :: "IBinder \<Rightarrow> bool" where
  "checkSubclass_gBinderOffsets (JavaBBinder obj) = True"
| "checkSubclass_gBinderOffsets BBinder = False"
| "checkSubclass_gBinderOffsets BpBinder = False"

fun localBinder :: "IBinder \<Rightarrow> bool" where
  "localBinder (JavaBBinder obj) = True"
| "localBinder BBinder = True"
| "localBinder BpBinder = False"

record BinderProxyNativeData =
  mObject :: "addr option"
  mOrgue :: "addr option"

record JavaDeathRecipient =
  jdr_mObject :: "jobject option"
  jdr_mObjectWeak :: "jobject option"
  jdr_mList :: addr

record Parcel =
  dataSize :: jint

text \<open>
  The process state. Besides the stores and the statics of the file it keeps traces of
  what the native code did to its collaborators: \<open>chanLog\<close> the calls made on the binder
  channel (libbinder), \<open>notices\<close> the calls of \<^verbatim>\<open>BinderProxy.sendDeathNotice\<close> (the sending
  JavaDeathRecipient and the recipient object), \<open>javaLog\<close> the calls of \<^verbatim>\<open>Log.e\<close>,
  \<open>strictPolicyCalls\<close> the calls of \<^verbatim>\<open>StrictMode.onBinderStrictModePolicyChange\<close>,
  \<open>nativeOnTransacts\<close> the calls of \<^verbatim>\<open>BBinder::onTransact\<close> and \<open>forceGcCalls\<close> those of
  \<^verbatim>\<open>BinderInternal.forceBinderGc\<close>. \<open>gcCleared\<close> holds the Java objects that the collector
  has reclaimed, whose weak global references read as null. \<open>sProxyMap\<close> is the uniquing
  table kept on the Java side.
\<close>

datatype chan_call =
    ChanTransact addr jint jint
  | ChanLinkToDeath addr addr jint
  | ChanUnlinkToDeath addr addr jint

record jni_state =
  jheap :: "jobject \<rightharpoonup> jobj"
  gcCleared :: "jobject set"
  nextJobject :: jobject
  pending :: "jthrowable option"
  nativeData :: "addr \<rightharpoonup> BinderProxyNativeData"
  binders :: "addr \<rightharpoonup> IBinder"
  holders :: "addr \<rightharpoonup> addr option"
  recipients :: "addr \<rightharpoonup> JavaDeathRecipient"
  lists :: "addr \<rightharpoonup> addr list"
  nextAddr :: addr
  gNativeDataCache :: "addr option"
  gNumProxies :: jint
  gProxiesWarned :: jint
  gNumLocalRefsCreated :: "32 word"
  gNumDeathRefsCreated :: "32 word"
  gCollectedAtRefs :: "32 word"
  forceGcCalls :: nat
  chanLog :: "chan_call list"
  notices :: "(addr \<times> jobject) list"
  javaLog :: "(string \<times> jthrowable) list"
  strictPolicyCalls :: "jint list"
  nativeOnTransacts :: nat
  sProxyMap :: "(addr \<times> jobject \<times> nat) list"

definition jniThrowException :: "string \<Rightarrow> string option \<Rightarrow> jni_state \<Rightarrow> jni_state" where
  "jniThrowException cls msg s = s\<lparr>pending := Some (JThrowable cls msg)\<rparr>"

definition jniThrowNullPointerException :: "string option \<Rightarrow> jni_state \<Rightarrow> jni_state" where
  "jniThrowNullPointerException msg s = jniThrowException ''java/lang/NullPointerException'' msg s"

definition getBPNativeData :: "jni_state \<Rightarrow> jobject \<Rightarrow> addr option" where
  "getBPNativeData s obj = (case jheap s obj of Some (JBinderProxy nd) \<Rightarrow> Some nd | _ \<Rightarrow> None)"

definition derefNativeData :: "jni_state \<Rightarrow> jobject \<Rightarrow> BinderProxyNativeData option" where
  "derefNativeData s obj = (case getBPNativeData s obj of None \<Rightarrow> None | Some nd \<Rightarrow> nativeData s nd)"

subsection \<open>signalExceptionForError\<close>

fun signalExceptionForError :: "status_t \<Rightarrow> bool \<Rightarrow> jint \<Rightarrow> jni_state \<Rightarrow> jni_state" where
  "signalExceptionForError UNKNOWN_ERROR canThrowRemoteException parcelSize s =
     jniThrowException ''java/lang/RuntimeException'' (Some ''Unknown error'') s"
| "signalExceptionForError NO_MEMORY canThrowRemoteException parcelSize s =
     jniThrowException ''java/lang/OutOfMemoryError'' None s"
| "signalExceptionForError INVALID_OPERATION canThrowRemoteException parcelSize s =
     jniThrowException ''java/lang/UnsupportedOperationException'' None s"
| "signalExceptionForError BAD_VALUE canThrowRemoteException parcelSize s =
     jniThrowException ''java/lang/IllegalArgumentException'' None s"
| "signalExceptionForError BAD_INDEX canThrowRemoteException parcelSize s =
     jniThrowException ''java/lang/IndexOutOfBoundsException'' None s"
| "signalExceptionForError BAD_TYPE canThrowRemoteException parcelSize s =
     jniThrowException ''java/lang/IllegalArgumentException'' None s"
| "signalExceptionForError NAME_NOT_FOUND canThrowRemoteException parcelSize s =
     jniThrowException ''java/util/NoSuchElementException'' None s"
| "signalExceptionForError PERMISSION_DENIED canThrowRemoteException parcelSize s =
     jniThrowException ''java/lang/SecurityException'' None s"
| "signalExceptionForError NOT_ENOUGH_DATA canThrowRemoteException parcelSize s =
     jniThrowException ''android/os/ParcelFormatException'' (Some ''Not enough data'') s"
| "signalExceptionForError NO_INIT canThrowRemoteException parcelSize s =
     jniThrowException ''java/lang/RuntimeException'' (Some ''Not initialized'') s"
| "signalExceptionForError ALREADY_EXISTS canThrowRemoteException parcelSize s =
     jniThrowException ''java/lang/RuntimeException'' (Some ''Item already exists'') s"
| "signalExceptionForError DEAD_OBJECT canThrowRemoteException parcelSize s =
     jniThrowException
       (if canThrowRemoteException then ''android/os/DeadObjectException''
        else ''java/lang/RuntimeException'') None s"
| "signalExceptionForError UNKNOWN_TRANSACTION canThrowRemoteException parcelSize s =
     jniThrowException ''java/lang/RuntimeException'' (Some ''Unknown transaction code'') s"
| "signalExceptionForError FAILED_TRANSACTION canThrowRemoteException parcelSize s =
     (if canThrowRemoteException \<and> 200 * 1024 < sint parcelSize
      then jniThrowException ''android/os/TransactionTooLargeException''
             (Some (''data parcel size '' @ printf_d parcelSize @ '' bytes'')) s
      else jniThrowException
             (if canThrowRemoteException then ''android/os/DeadObjectException''
              else ''java/lang/RuntimeException'')
             (Some ''Transaction failed on small parcel; remote process probably died'') s)"
| "signalExceptionForError FDS_NOT_ALLOWED canThrowRemoteException parcelSize s =
     jniThrowException ''java/lang/RuntimeException''
       (Some ''Not allowed to write file descriptors here'') s"
| "signalExceptionForError UNEXPECTED_NULL canThrowRemoteException parcelSize s =
     jniThrowNullPointerException None s"
| "signalExceptionForError NEG_EBADF canThrowRemoteException parcelSize s =
     jniThrowException ''java/lang/RuntimeException'' (Some ''Bad file descriptor'') s"
| "signalExceptionForError NEG_ENFILE canThrowRemoteException parcelSize s =
     jniThrowException ''java/lang/RuntimeException'' (Some ''File table overflow'') s"
| "signalExceptionForError NEG_EMFILE canThrowRemoteException parcelSize s =
     jniThrowException ''java/lang/RuntimeException'' (Some ''Too many open files'') s"
| "signalExceptionForError NEG_EFBIG canThrowRemoteException parcelSize s =
     jniThrowException ''java/lang/RuntimeException'' (Some ''File too large'') s"
| "signalExceptionForError NEG_ENOSPC canThrowRemoteException parcelSize s =
     jniThrowException ''java/lang/RuntimeException'' (Some ''No space left on device'') s"
| "signalExceptionForError NEG_ESPIPE canThrowRemoteException parcelSize s =
     jniThrowException ''java/lang/RuntimeException'' (Some ''Illegal seek'') s"
| "signalExceptionForError NEG_EROFS canThrowRemoteException parcelSize s =
     jniThrowException ''java/lang/RuntimeException'' (Some ''Read-only file system'') s"
| "signalExceptionForError NEG_EMLINK canThrowRemoteException parcelSize s =
     jniThrowException ''java/lang/RuntimeException'' (Some ''Too many links'') s"
| "signalExceptionForError NO_ERROR canThrowRemoteException parcelSize s =
     jniThrowException
       (if canThrowRemoteException then ''android/os/RemoteException''
        else ''java/lang/RuntimeException'')
       (Some (''Unknown binder error code. 0x'' @ ''0'')) s"
| "signalExceptionForError (OTHER_STATUS c) canThrowRemoteException parcelSize s =
     jniThrowException
       (if canThrowRemoteException then ''android/os/RemoteException''
        else ''java/lang/RuntimeException'')
       (Some (''Unknown binder error code. 0x'' @ printf_x c)) s"

subsection \<open>BinderProxy.transactNative\<close>

text \<open>
  \<open>parcelFor\<close> is \<^verbatim>\<open>parcelForJavaObject\<close> of android\_os\_Parcel.cpp, taken as a parameter:
  it yields the native Parcel of a Java Parcel, or null, and may leave an exception
  pending. \<open>err\<close> is the status that \<^verbatim>\<open>target->transact\<close> reports for the one call made
  on the channel. The sampling of call durations is compiled out
  (\<^verbatim>\<open>kEnableBinderSample = false\<close>).
\<close>

definition android_os_BinderProxy_transact ::
  "(jni_state \<Rightarrow> jobject option \<Rightarrow> Parcel option \<times> jni_state) \<Rightarrow> status_t \<Rightarrow>
   jni_state \<Rightarrow> jobject \<Rightarrow> jint \<Rightarrow> jobject option \<Rightarrow> jobject option \<Rightarrow> jint \<Rightarrow>
   (bool \<times> jni_state) exec" where
  "android_os_BinderProxy_transact parcelFor err s obj code dataObj replyObj flags =
     (if dataObj = None then Returned (False, jniThrowNullPointerException None s)
      else
        (case parcelFor s dataObj of
           (None, s1) \<Rightarrow> Returned (False, s1)
         | (Some data, s1) \<Rightarrow>
             (case parcelFor s1 replyObj of (reply, s2) \<Rightarrow>
                if reply = None \<and> replyObj \<noteq> None then Returned (False, s2)
                else
                  (case derefNativeData s2 obj of
                     None \<Rightarrow> Undefined
                   | Some nd \<Rightarrow>
                       (case mObject nd of
                          None \<Rightarrow>
                            Returned (False,
                              jniThrowException ''java/lang/IllegalStateException''
                                (Some ''Binder has been finalized!'') s2)
                        | Some target \<Rightarrow>
                            (let s3 = s2\<lparr>chanLog := chanLog s2 @ [ChanTransact target code flags]\<rparr>
                             in if err = NO_ERROR then Returned (True, s3)
                                else if err = UNKNOWN_TRANSACTION then Returned (False, s3)
                                else Returned (False,
                                       signalExceptionForError err True (dataSize data) s3)))))))"


subsection \<open>Reporting an exception thrown by Java code called from native code\<close>

text \<open>
  What a Java method called through JNI did: it completed with a value, or it left a
  throwable pending; the flag tells whether the throwable is an instance of
  \<^verbatim>\<open>java.lang.Error\<close>, the answer of \<^verbatim>\<open>IsInstanceOf(excep, gErrorOffsets.mClass)\<close>.
\<close>

datatype 'a java_call = Completed 'a | Threw jthrowable bool

fun exec_bind :: "'a exec \<Rightarrow> ('a \<Rightarrow> 'b exec) \<Rightarrow> 'b exec" where
  "exec_bind (Returned x) f = f x"
| "exec_bind Aborted f = Aborted"
| "exec_bind Undefined f = Undefined"

text \<open>\<^verbatim>\<open>FatalError\<close> does not return: the runtime aborts.\<close>

definition report_java_lang_error_fatal_error :: "jthrowable \<Rightarrow> string \<Rightarrow> jni_state \<Rightarrow> jni_state exec" where
  "report_java_lang_error_fatal_error error msg s = Aborted"

text \<open>
  The uncaught-exception handler of the current thread ends the process; should it
  return, or should there be no current thread, the error is reported as fatal.
\<close>

definition report_java_lang_error :: "jthrowable \<Rightarrow> string \<Rightarrow> jni_state \<Rightarrow> jni_state exec" where
  "report_java_lang_error error msg s =
     report_java_lang_error_fatal_error error msg (s\<lparr>pending := None\<rparr>)"

definition report_exception :: "jthrowable \<Rightarrow> bool \<Rightarrow> string \<Rightarrow> jni_state \<Rightarrow> jni_state exec" where
  "report_exception excep isError msg s =
     (let s1 = s\<lparr>pending := None, javaLog := javaLog s @ [(msg, excep)]\<rparr>
      in if isError then report_java_lang_error excep msg s1 else Returned s1)"

subsection \<open>JavaBBinder::onTransact\<close>

text \<open>
  \<open>execTransact\<close> is what \<^verbatim>\<open>Binder.execTransact\<close> did, \<open>strict_policy_before\<close> and
  \<open>strict_policy_after\<close> are the thread's strict-mode policy read before and after it, and
  \<open>policyCallback\<close> is what \<^verbatim>\<open>onBinderStrictModePolicyChange\<close> does if it is called.
  \<open>SYSPROPS_TRANSACTION\<close> is the transaction code of that name (binder/IBinder.h).
\<close>

definition onTransact ::
  "jint \<Rightarrow> bool java_call \<Rightarrow> jint \<Rightarrow> jint \<Rightarrow> unit java_call \<Rightarrow>
   jni_state \<Rightarrow> jint \<Rightarrow> jint \<Rightarrow> (status_t \<times> jni_state) exec" where
  "onTransact SYSPROPS_TRANSACTION execTransact strict_policy_before strict_policy_after
       policyCallback s code flags =
     exec_bind
       (case execTransact of
          Completed r \<Rightarrow> Returned (r, s)
        | Threw excep isError \<Rightarrow>
            exec_bind
              (report_exception excep isError
                 ''*** Uncaught remote exception!  (Exceptions are not yet supported across processes.)'' s)
              (\<lambda>s'. Returned (False, s')))
       (\<lambda>(res, s1).
          exec_bind
            (if strict_policy_after \<noteq> strict_policy_before
             then (let s2 = s1\<lparr>strictPolicyCalls := strictPolicyCalls s1 @ [strict_policy_before]\<rparr>
                   in case policyCallback of
                        Completed u \<Rightarrow> Returned s2
                      | Threw excep isError \<Rightarrow>
                          report_exception excep isError
                            ''*** Uncaught exception in onBinderStrictModePolicyChange'' s2)
             else Returned s1)
            (\<lambda>s3.
               Returned
                 (if res then NO_ERROR else UNKNOWN_TRANSACTION,
                  if code = SYSPROPS_TRANSACTION
                  then s3\<lparr>nativeOnTransacts := nativeOnTransacts s3 + 1\<rparr> else s3)))"

subsection \<open>Death recipients\<close>

definition GC_INTERVAL :: "32 word" where
  "GC_INTERVAL = 1000"

definition MAX_RACING :: "32 word" where
  "MAX_RACING = 100000"

text \<open>
  The counters are unsigned and wrap around. Run by one thread at a time, the
  compare-and-exchange finds the value just read and succeeds.
\<close>

definition gcIfManyNewRefs :: "jni_state \<Rightarrow> jni_state" where
  "gcIfManyNewRefs s =
     (let totalRefs = gNumLocalRefsCreated s + gNumDeathRefsCreated s;
          collectedAtRefs = gCollectedAtRefs s
      in if totalRefs - (collectedAtRefs + GC_INTERVAL) < MAX_RACING
         then s\<lparr>gCollectedAtRefs := collectedAtRefs + GC_INTERVAL,
                forceGcCalls := forceGcCalls s + 1\<rparr>
         else s)"

definition IsSameObject :: "jobject option \<Rightarrow> jobject option \<Rightarrow> bool" where
  "IsSameObject a b = (a = b)"

text \<open>A local reference made from a weak global one is null once the object is reclaimed.\<close>

definition NewLocalRef_of_weak :: "jni_state \<Rightarrow> jobject option \<Rightarrow> jobject option" where
  "NewLocalRef_of_weak s w =
     (case w of None \<Rightarrow> None | Some obj \<Rightarrow> if obj \<in> gcCleared s then None else Some obj)"

definition matches :: "jni_state \<Rightarrow> JavaDeathRecipient \<Rightarrow> jobject option \<Rightarrow> bool" where
  "matches s jdr obj =
     (if jdr_mObject jdr \<noteq> None then IsSameObject obj (jdr_mObject jdr)
      else IsSameObject obj (NewLocalRef_of_weak s (jdr_mObjectWeak jdr)))"

definition DeathRecipientList_add :: "addr \<Rightarrow> addr \<Rightarrow> jni_state \<Rightarrow> jni_state exec" where
  "DeathRecipientList_add list recipient s =
     (case lists s list of
        None \<Rightarrow> Undefined
      | Some mList \<Rightarrow> Returned (s\<lparr>lists := (lists s)(list \<mapsto> mList @ [recipient])\<rparr>))"

text \<open>The loop of \<^verbatim>\<open>remove\<close> erases the first element equal to the recipient and returns.\<close>

definition DeathRecipientList_remove :: "addr \<Rightarrow> addr \<Rightarrow> jni_state \<Rightarrow> jni_state exec" where
  "DeathRecipientList_remove list recipient s =
     (case lists s list of
        None \<Rightarrow> Undefined
      | Some mList \<Rightarrow> Returned (s\<lparr>lists := (lists s)(list \<mapsto> remove1 recipient mList)\<rparr>))"

fun find_loop :: "jni_state \<Rightarrow> addr list \<Rightarrow> jobject option \<Rightarrow> addr option exec" where
  "find_loop s [] recipient = Returned None"
| "find_loop s (iter # rest) recipient =
     (case recipients s iter of
        None \<Rightarrow> Undefined
      | Some jdr \<Rightarrow> if matches s jdr recipient then Returned (Some iter)
                    else find_loop s rest recipient)"

definition DeathRecipientList_find :: "jni_state \<Rightarrow> addr \<Rightarrow> jobject option \<Rightarrow> addr option exec" where
  "DeathRecipientList_find s list recipient =
     (case lists s list of None \<Rightarrow> Undefined | Some mList \<Rightarrow> find_loop s mList recipient)"

text \<open>
  The constructor of JavaDeathRecipient: the object takes a global reference to the
  recipient, adds itself to the list and counts the reference. A JavaDeathRecipient is
  destroyed when its last strong pointer goes, and libbinder holds some of them; the
  model keeps the object in the store and follows its fields and its membership in the
  list, not its deallocation.
\<close>

definition new_JavaDeathRecipient :: "jobject \<Rightarrow> addr \<Rightarrow> jni_state \<Rightarrow> (addr \<times> jni_state) exec" where
  "new_JavaDeathRecipient object list s =
     (let this = nextAddr s;
          s1 = s\<lparr>recipients := (recipients s)(this \<mapsto>
                    \<lparr>jdr_mObject = Some object, jdr_mObjectWeak = None, jdr_mList = list\<rparr>),
                 nextAddr := this + 1\<rparr>
      in exec_bind (DeathRecipientList_add list this s1)
           (\<lambda>s2. Returned (this,
              gcIfManyNewRefs (s2\<lparr>gNumDeathRefsCreated := gNumDeathRefsCreated s2 + 1\<rparr>))))"

text \<open>
  \<open>sendDeathNotice\<close> is what \<^verbatim>\<open>BinderProxy.sendDeathNotice\<close> did. The weak pointer to the
  list promotes while the list is in the store.
\<close>

definition binderDied :: "unit java_call \<Rightarrow> addr \<Rightarrow> jni_state \<Rightarrow> jni_state exec" where
  "binderDied sendDeathNotice this s =
     (case recipients s this of
        None \<Rightarrow> Undefined
      | Some jdr \<Rightarrow>
          (case jdr_mObject jdr of
             None \<Rightarrow> Returned s
           | Some obj \<Rightarrow>
               exec_bind
                 (let s1 = s\<lparr>notices := notices s @ [(this, obj)]\<rparr>
                  in case sendDeathNotice of
                       Completed u \<Rightarrow> Returned s1
                     | Threw excep isError \<Rightarrow>
                         report_exception excep isError
                           ''*** Uncaught exception returned from death notification!'' s1)
                 (\<lambda>s2.
                    case lists s2 (jdr_mList jdr) of
                      None \<Rightarrow> Returned s2
                    | Some mList \<Rightarrow>
                        Returned (s2\<lparr>recipients := (recipients s2)(this \<mapsto>
                          jdr\<lparr>jdr_mObjectWeak := Some obj, jdr_mObject := None\<rparr>)\<rparr>))))"

definition clearReference :: "addr \<Rightarrow> jni_state \<Rightarrow> jni_state exec" where
  "clearReference this s =
     (case recipients s this of
        None \<Rightarrow> Undefined
      | Some jdr \<Rightarrow>
          (case lists s (jdr_mList jdr) of
             None \<Rightarrow> Returned s
           | Some mList \<Rightarrow> DeathRecipientList_remove (jdr_mList jdr) this s))"

subsection \<open>BinderProxy.linkToDeath and unlinkToDeath\<close>

text \<open>
  \<open>err\<close> is the status that \<^verbatim>\<open>target->linkToDeath\<close> reports if it is called, and
  \<open>defaultParcelSize\<close> the default of the last argument of \<open>signalExceptionForError\<close>,
  declared in android\_util\_Binder.h.
\<close>

definition android_os_BinderProxy_linkToDeath ::
  "jint \<Rightarrow> status_t \<Rightarrow> jni_state \<Rightarrow> jobject \<Rightarrow> jobject option \<Rightarrow> jint \<Rightarrow> jni_state exec" where
  "android_os_BinderProxy_linkToDeath defaultParcelSize err s obj recipient flags =
     (case recipient of
        None \<Rightarrow> Returned (jniThrowNullPointerException None s)
      | Some r \<Rightarrow>
          (case derefNativeData s obj of
             None \<Rightarrow> Undefined
           | Some nd \<Rightarrow>
               (case mObject nd of
                  None \<Rightarrow> Undefined
                | Some target \<Rightarrow>
                    (case binders s target of
                       None \<Rightarrow> Undefined
                     | Some b \<Rightarrow>
                         if \<not> localBinder b then
                           (case mOrgue nd of
                              None \<Rightarrow> Undefined
                            | Some list \<Rightarrow>
                                exec_bind (new_JavaDeathRecipient r list s)
                                  (\<lambda>(jdr, s1).
                                     let s2 = s1\<lparr>chanLog := chanLog s1 @ [ChanLinkToDeath target jdr flags]\<rparr>
                                     in if err \<noteq> NO_ERROR
                                        then exec_bind (clearReference jdr s2)
                                               (\<lambda>s3. Returned (signalExceptionForError err True defaultParcelSize s3))
                                        else Returned s2))
                         else Returned s))))"

text \<open>
  \<open>reply\<close> is what \<^verbatim>\<open>target->unlinkToDeath\<close> reports if it is called: its status and the
  recipient it hands back in \<^verbatim>\<open>dr\<close>.
\<close>

definition android_os_BinderProxy_unlinkToDeath ::
  "status_t \<times> addr option \<Rightarrow> jni_state \<Rightarrow> jobject \<Rightarrow> jobject option \<Rightarrow> jint \<Rightarrow>
   (bool \<times> jni_state) exec" where
  "android_os_BinderProxy_unlinkToDeath reply s obj recipient flags =
     (case recipient of
        None \<Rightarrow> Returned (False, jniThrowNullPointerException None s)
      | Some r \<Rightarrow>
          (case derefNativeData s obj of
             None \<Rightarrow> Undefined
           | Some nd \<Rightarrow>
               (case mObject nd of
                  None \<Rightarrow> Returned (False, s)
                | Some target \<Rightarrow>
                    (case binders s target of
                       None \<Rightarrow> Undefined
                     | Some b \<Rightarrow>
                         if \<not> localBinder b then
                           (case mOrgue nd of
                              None \<Rightarrow> Undefined
                            | Some list \<Rightarrow>
                                exec_bind (DeathRecipientList_find s list recipient)
                                  (\<lambda>origJDR.
                                     exec_bind
                                       (case origJDR of
                                          None \<Rightarrow> Returned (NAME_NOT_FOUND, s)
                                        | Some jdr0 \<Rightarrow>
                                            (let s1 = s\<lparr>chanLog := chanLog s @ [ChanUnlinkToDeath target jdr0 flags]\<rparr>
                                             in if fst reply = NO_ERROR \<and> snd reply \<noteq> None
                                                then (case snd reply of
                                                        None \<Rightarrow> Returned (fst reply, s1)
                                                      | Some dr \<Rightarrow>
                                                          if recipients s1 dr \<noteq> None
                                                          then exec_bind (clearReference dr s1)
                                                                 (\<lambda>s2. Returned (fst reply, s2))
                                                          else Returned (fst reply, s1))
                                                else Returned (fst reply, s1)))
                                       (\<lambda>(err, s3).
                                          if err = NO_ERROR \<or> err = DEAD_OBJECT then Returned (True, s3)
                                          else Returned (False,
                                                 jniThrowException ''java/util/NoSuchElementException''
                                                   (Some ''Death link does not exist'') s3))))
                         else Returned (False, s)))))"

subsection \<open>JavaBBinderHolder and ibinderForJavaObject\<close>

text \<open>
  The constructor of JavaBBinder takes a global reference to the Java Binder and counts
  it. The weak pointer of a holder promotes while its JavaBBinder is in the store.
\<close>

definition new_JavaBBinder :: "jobject \<Rightarrow> jni_state \<Rightarrow> addr \<times> jni_state" where
  "new_JavaBBinder object s =
     (let this = nextAddr s;
          s1 = s\<lparr>binders := (binders s)(this \<mapsto> JavaBBinder object),
                 nextAddr := this + 1,
                 gNumLocalRefsCreated := gNumLocalRefsCreated s + 1\<rparr>
      in (this, gcIfManyNewRefs s1))"

definition promote_JavaBBinder :: "jni_state \<Rightarrow> addr option \<Rightarrow> addr option" where
  "promote_JavaBBinder s mBinder =
     (case mBinder of
        None \<Rightarrow> None
      | Some w \<Rightarrow> (case binders s w of Some (JavaBBinder object) \<Rightarrow> Some w | _ \<Rightarrow> None))"

definition JavaBBinderHolder_get :: "addr \<Rightarrow> jobject \<Rightarrow> jni_state \<Rightarrow> (addr \<times> jni_state) exec" where
  "JavaBBinderHolder_get jbh obj s =
     (case holders s jbh of
        None \<Rightarrow> Undefined
      | Some mBinder \<Rightarrow>
          (case promote_JavaBBinder s mBinder of
             Some b \<Rightarrow> Returned (b, s)
           | None \<Rightarrow>
               (case new_JavaBBinder obj s of
                  (b, s1) \<Rightarrow> Returned (b, s1\<lparr>holders := (holders s1)(jbh \<mapsto> Some b)\<rparr>))))"

definition ibinderForJavaObject :: "jni_state \<Rightarrow> jobject option \<Rightarrow> (addr option \<times> jni_state) exec" where
  "ibinderForJavaObject s obj =
     (case obj of
        None \<Rightarrow> Returned (None, s)
      | Some x \<Rightarrow>
          (case jheap s x of
             None \<Rightarrow> Undefined
           | Some (JBinder jbh) \<Rightarrow>
               exec_bind (JavaBBinderHolder_get jbh x s) (\<lambda>(b, s1). Returned (Some b, s1))
           | Some (JBinderProxy nd) \<Rightarrow>
               (case nativeData s nd of
                  None \<Rightarrow> Undefined
                | Some d \<Rightarrow> Returned (mObject d, s))
           | Some JOther \<Rightarrow> Returned (None, s)))"

subsection \<open>The uniquing table\<close>

text \<open>
  Modelled from the spec: \<^verbatim>\<open>BinderProxy.getInstance\<close> and the uniquing table behind it
  (core/java/android/os/BinderProxy.java) are not among the sources. Section 4.1 of the
  specification: ``If a live Proxy for that (channel, handle) already exists, return it
  (increment share count). Otherwise atomically construct a new Proxy and register
  it.'' The table \<open>sProxyMap\<close> holds, for the native address of an IBinder, its proxy and
  the share count; it holds live proxies only, since the last release of a proxy tears
  its entry down (section 3). A constructed BinderProxy is a new Java object that takes
  the native data it is given as its \<^verbatim>\<open>mNativeData\<close>. As modelled the method never throws.
\<close>

fun share :: "addr \<Rightarrow> (addr \<times> jobject \<times> nat) list \<Rightarrow> (jobject \<times> (addr \<times> jobject \<times> nat) list) option" where
  "share iBinder [] = None"
| "share iBinder ((k, p, n) # es) =
     (if k = iBinder then Some (p, (k, p, n + 1) # es)
      else (case share iBinder es of
              None \<Rightarrow> None
            | Some (q, es') \<Rightarrow> Some (q, (k, p, n) # es')))"

definition getInstance :: "jni_state \<Rightarrow> addr \<Rightarrow> addr \<Rightarrow> jobject option \<times> jni_state" where
  "getInstance s nativeData_p iBinder =
     (case share iBinder (sProxyMap s) of
        Some (p, m) \<Rightarrow> (Some p, s\<lparr>sProxyMap := m\<rparr>)
      | None \<Rightarrow>
          (let p = nextJobject s
           in (Some p,
               s\<lparr>jheap := (jheap s)(p \<mapsto> JBinderProxy nativeData_p),
                 nextJobject := p + 1,
                 sProxyMap := sProxyMap s @ [(iBinder, p, 1)]\<rparr>)))"

subsection \<open>javaObjectForIBinder\<close>

definition PROXY_WARN_INTERVAL :: jint where
  "PROXY_WARN_INTERVAL = 5000"

fun JavaBBinder_object :: "IBinder \<Rightarrow> jobject option" where
  "JavaBBinder_object (JavaBBinder obj) = Some obj"
| "JavaBBinder_object BBinder = None"
| "JavaBBinder_object BpBinder = None"

definition new_BinderProxyNativeData :: "jni_state \<Rightarrow> addr \<times> jni_state" where
  "new_BinderProxyNativeData s =
     (nextAddr s,
      s\<lparr>nativeData := (nativeData s)(nextAddr s \<mapsto> \<lparr>mObject = None, mOrgue = None\<rparr>),
        nextAddr := nextAddr s + 1\<rparr>)"

definition new_DeathRecipientList :: "jni_state \<Rightarrow> addr \<times> jni_state" where
  "new_DeathRecipientList s =
     (nextAddr s, s\<lparr>lists := (lists s)(nextAddr s \<mapsto> []), nextAddr := nextAddr s + 1\<rparr>)"

text \<open>
  \<open>getInst\<close> is the Java method \<^verbatim>\<open>BinderProxy.getInstance(nativeData, iBinder)\<close>: it returns
  an object reference and may leave an exception pending. Every call runs under
  \<^verbatim>\<open>gProxyLock\<close> from the cache lookup to the return, so the calls of concurrent threads
  take effect one after the other, each as one step of this function.
\<close>

definition javaObjectForIBinder ::
  "(jni_state \<Rightarrow> addr \<Rightarrow> addr \<Rightarrow> jobject option \<times> jni_state) \<Rightarrow>
   jni_state \<Rightarrow> addr option \<Rightarrow> (jobject option \<times> jni_state) exec" where
  "javaObjectForIBinder getInst s val =
     (case val of
        None \<Rightarrow> Returned (None, s)
      | Some v \<Rightarrow>
          (case binders s v of
             None \<Rightarrow> Undefined
           | Some b \<Rightarrow>
               if checkSubclass_gBinderOffsets b then Returned (JavaBBinder_object b, s)
               else
                 (case (case gNativeDataCache s of
                          Some c \<Rightarrow> (c, s)
                        | None \<Rightarrow> new_BinderProxyNativeData s) of
                    (nativeData_p, s1) \<Rightarrow>
                      (case getInst s1 nativeData_p v of
                         (object, s2) \<Rightarrow>
                           if pending s2 \<noteq> None
                           then Returned (None, s2\<lparr>gNativeDataCache := None\<rparr>)
                           else
                             (case object of
                                None \<Rightarrow> Undefined
                              | Some p \<Rightarrow>
                                  (case getBPNativeData s2 p of
                                     None \<Rightarrow> Undefined
                                   | Some actualNativeData \<Rightarrow>
                                       if actualNativeData = nativeData_p then
                                         (case nativeData s2 nativeData_p of
                                            None \<Rightarrow> Undefined
                                          | Some d \<Rightarrow>
                                              (case new_DeathRecipientList s2 of
                                                 (orgue, s3) \<Rightarrow>
                                                   (let s4 = s3\<lparr>nativeData := (nativeData s3)(nativeData_p \<mapsto>
                                                                   d\<lparr>mOrgue := Some orgue, mObject := Some v\<rparr>),
                                                                 gNativeDataCache := None,
                                                                 gNumProxies := gNumProxies s3 + 1\<rparr>
                                                    in Returned (Some p,
                                                         if sint (gProxiesWarned s4 + PROXY_WARN_INTERVAL)
                                                              \<le> sint (gNumProxies s4)
                                                         then s4\<lparr>gProxiesWarned := gNumProxies s4\<rparr>
                                                         else s4))))
                                       else Returned (Some p, s2\<lparr>gNativeDataCache := Some nativeData_p\<rparr>)))))))"

subsection \<open>Sequences of resolutions and the well-formed table\<close>

text \<open>
  The resolutions of a list of binders, in the order in which the calls, made by
  whatever threads, enter the critical section.
\<close>

fun resolve_all :: "jni_state \<Rightarrow> addr list \<Rightarrow> (jobject option list \<times> jni_state) exec" where
  "resolve_all s [] = Returned ([], s)"
| "resolve_all s (v # vs) =
     exec_bind (javaObjectForIBinder getInstance s (Some v))
       (\<lambda>(r, s1). exec_bind (resolve_all s1 vs) (\<lambda>(rs, s2). Returned (r # rs, s2)))"

definition proxy_of :: "(addr \<times> jobject \<times> nat) list \<Rightarrow> addr \<Rightarrow> jobject option" where
  "proxy_of m iBinder = map_option fst (map_of m iBinder)"

definition entries_for :: "addr \<Rightarrow> jni_state \<Rightarrow> nat" where
  "entries_for iBinder s = length (filter (\<lambda>e. fst e = iBinder) (sProxyMap s))"

text \<open>
  The binder is in the store and is not a JavaBBinder: the resolution goes through the
  table.
\<close>

definition proxied :: "jni_state \<Rightarrow> addr \<Rightarrow> bool" where
  "proxied s v = (case binders s v of None \<Rightarrow> False | Some b \<Rightarrow> \<not> checkSubclass_gBinderOffsets b)"

text \<open>
  The states in which the native code and the table agree: no exception is pending, the
  table has one entry for a key, every proxy of the table is an allocated BinderProxy
  whose native data is allocated and is not the cached node, and the cached node, if
  there is one, is allocated with both fields null.
\<close>

definition proxy_wf :: "jni_state \<Rightarrow> jobject \<Rightarrow> bool" where
  "proxy_wf s p =
     (p < nextJobject s
      \<and> (case jheap s p of
            Some (JBinderProxy nd) \<Rightarrow> nd < nextAddr s \<and> gNativeDataCache s \<noteq> Some nd
          | _ \<Rightarrow> False))"

definition table_ok :: "jni_state \<Rightarrow> bool" where
  "table_ok s =
     (pending s = None
      \<and> distinct (map fst (sProxyMap s))
      \<and> list_all (proxy_wf s) (map (\<lambda>e. fst (snd e)) (sProxyMap s))
      \<and> (case gNativeDataCache s of
            None \<Rightarrow> True
          | Some c \<Rightarrow> c < nextAddr s \<and> nativeData s c = Some \<lparr>mObject = None, mOrgue = None\<rparr>))"

subsection \<open>Sequences of peer-death events\<close>

text \<open>
  The peer-death events that libbinder delivers to one JavaDeathRecipient, one after the
  other; the list gives what \<^verbatim>\<open>sendDeathNotice\<close> does at each of them. An aborted process
  receives no further event.
\<close>

fun binderDied_events :: "unit java_call list \<Rightarrow> addr \<Rightarrow> jni_state \<Rightarrow> jni_state exec" where
  "binderDied_events [] this s = Returned s"
| "binderDied_events (c # cs) this s =
     exec_bind (binderDied c this s) (binderDied_events cs this)"

definition notices_from :: "addr \<Rightarrow> jni_state \<Rightarrow> nat" where
  "notices_from this s = length (filter (\<lambda>n. fst n = this) (notices s))"

fun throws_Error :: "'a java_call \<Rightarrow> bool" where
  "throws_Error (Completed x) = False"
| "throws_Error (Threw excep isError) = isError"

subsection \<open>Example states\<close>

text \<open>The state of a freshly started process: every static is zero-initialised.\<close>

definition init_state :: jni_state where
  "init_state =
     \<lparr>jheap = Map.empty, gcCleared = {}, nextJobject = 1, pending = None,
      nativeData = Map.empty, binders = Map.empty, holders = Map.empty,
      recipients = Map.empty, lists = Map.empty, nextAddr = 1,
      gNativeDataCache = None, gNumProxies = 0, gProxiesWarned = 0,
      gNumLocalRefsCreated = 0, gNumDeathRefsCreated = 0, gCollectedAtRefs = 0,
      forceGcCalls = 0, chanLog = [], notices = [], javaLog = [],
      strictPolicyCalls = [], nativeOnTransacts = 0, sProxyMap = []\<rparr>"

text \<open>
  A process holding one BinderProxy (Java object 10, native data at 1) for the remote
  binder at address 2, with an empty death-recipient list at address 3.
\<close>

definition one_proxy_state :: jni_state where
  "one_proxy_state =
     init_state\<lparr>jheap := [10 \<mapsto> JBinderProxy 1],
                nativeData := [1 \<mapsto> \<lparr>mObject = Some 2, mOrgue = Some 3\<rparr>],
                binders := [2 \<mapsto> BpBinder],
                lists := [3 \<mapsto> []],
                nextAddr := 4, nextJobject := 11,
                sProxyMap := [(2, 10, 1)], gNumProxies := 1\<rparr>"

text \<open>
  The same process after Java object 30 was linked to the death of the proxy: its
  JavaDeathRecipient is at address 4, in the list at address 3.
\<close>

definition linked_state :: jni_state where
  "linked_state =
     one_proxy_state\<lparr>recipients := [4 \<mapsto> \<lparr>jdr_mObject = Some 30, jdr_mObjectWeak = None, jdr_mList = 3\<rparr>],
                     lists := [3 \<mapsto> [4]],
                     nextAddr := 5,
                     gNumDeathRefsCreated := 1,
                     chanLog := [ChanLinkToDeath 2 4 0]\<rparr>"

text \<open>
  The process of \<open>one_proxy_state\<close> with a spare native-data node cached at address 4.
\<close>

definition cached_state :: jni_state where
  "cached_state =
     one_proxy_state\<lparr>nativeData := [1 \<mapsto> \<lparr>mObject = Some 2, mOrgue = Some 3\<rparr>,
                                     4 \<mapsto> \<lparr>mObject = None, mOrgue = None\<rparr>],
                     nextAddr := 5,
                     gNativeDataCache := Some 4\<rparr>"

text \<open>A fresh process that has received two remote binders, at addresses 1 and 2.\<close>

definition remote_state :: jni_state where
  "remote_state = init_state\<lparr>binders := [1 \<mapsto> BpBinder, 2 \<mapsto> BpBinder], nextAddr := 3\<rparr>"

text \<open>
  A fresh process with one Java Binder (object 20) whose holder, at address 1, has not
  made its JavaBBinder yet.
\<close>

definition binder_state :: jni_state where
  "binder_state =
     init_state\<lparr>jheap := [20 \<mapsto> JBinder 1], holders := [1 \<mapsto> None],
                nextAddr := 2, nextJobject := 21\<rparr>"

text \<open>A parcel resolver for the examples: every non-null Java Parcel has a 16-byte native Parcel.\<close>

definition any_parcel :: "jni_state \<Rightarrow> jobject option \<Rightarrow> Parcel option \<times> jni_state" where
  "any_parcel s p = (case p of None \<Rightarrow> (None, s) | Some x \<Rightarrow> (Some \<lparr>dataSize = 16\<rparr>, s))"

section \<open>Properties\<close>

subsection \<open>Errors of a transaction\<close>

lemma signalExceptionForError_pending:
  "pending (signalExceptionForError err c n s) \<noteq> None"
  by (cases err) (simp_all add: jniThrowException_def jniThrowNullPointerException_def)

lemma signalExceptionForError_only_pending:
  "signalExceptionForError err c n s = s\<lparr>pending := pending (signalExceptionForError err c n s)\<rparr>"
  by (cases err) (simp_all add: jniThrowException_def jniThrowNullPointerException_def)


lemma transact_unfold:
  assumes "parcelFor s (Some dataObj) = (Some data, s1)"
    and "parcelFor s1 replyObj = (reply, s2)"
    and "reply = None \<longrightarrow> replyObj = None"
    and "derefNativeData s2 obj = Some nd"
    and "mObject nd = Some target"
  shows "android_os_BinderProxy_transact parcelFor err s obj code (Some dataObj) replyObj flags
     = (let s3 = s2\<lparr>chanLog := chanLog s2 @ [ChanTransact target code flags]\<rparr>
        in if err = NO_ERROR then Returned (True, s3)
           else if err = UNKNOWN_TRANSACTION then Returned (False, s3)
           else Returned (False, signalExceptionForError err True (dataSize data) s3))"
  using assms unfolding android_os_BinderProxy_transact_def
  by (auto simp del: signalExceptionForError.simps)

text \<open>
  C6. A transact with a non-null data parcel on a live proxy (both parcels resolve, the
  native target is not null) makes exactly one call on the channel. When the channel
  reports \<open>NO_ERROR\<close> it returns true and when it reports \<open>UNKNOWN_TRANSACTION\<close> it returns
  false, in both cases throwing nothing: the state differs from the one the parcel
  resolution left only by the logged channel call. Every other status returns false with
  the exception of \<open>signalExceptionForError\<close> pending, and still one channel call.
\<close>

theorem transact_error_policy:
  assumes "parcelFor s (Some dataObj) = (Some data, s1)"
    and "parcelFor s1 replyObj = (reply, s2)"
    and "reply = None \<longrightarrow> replyObj = None"
    and "derefNativeData s2 obj = Some nd"
    and "mObject nd = Some target"
  shows "let s3 = s2\<lparr>chanLog := chanLog s2 @ [ChanTransact target code flags]\<rparr>;
             s4 = signalExceptionForError err True (dataSize data) s3
         in android_os_BinderProxy_transact parcelFor err s obj code (Some dataObj) replyObj flags
              = Returned (err = NO_ERROR,
                  if err = NO_ERROR \<or> err = UNKNOWN_TRANSACTION then s3 else s4)
            \<and> pending s4 \<noteq> None \<and> chanLog s4 = chanLog s3"
proof -
  let ?s3 = "s2\<lparr>chanLog := chanLog s2 @ [ChanTransact target code flags]\<rparr>"
  have "chanLog (signalExceptionForError err True (dataSize data) ?s3) = chanLog ?s3"
    by (subst signalExceptionForError_only_pending) simp
  then show ?thesis
    using signalExceptionForError_pending [of err True "dataSize data" ?s3]
    unfolding transact_unfold [OF assms] Let_def
    by (simp del: signalExceptionForError.simps)
qed
theorem transact_error_policy_witness:
  "android_os_BinderProxy_transact any_parcel DEAD_OBJECT one_proxy_state 10 1 (Some 20) None 0
     = Returned (False,
         one_proxy_state\<lparr>chanLog := [ChanTransact 2 1 0],
                          pending := Some (JThrowable ''android/os/DeadObjectException'' None)\<rparr>)"
proof -
  have d: "derefNativeData one_proxy_state 10 = Some \<lparr>mObject = Some 2, mOrgue = Some 3\<rparr>"
    by (simp add: derefNativeData_def getBPNativeData_def one_proxy_state_def init_state_def)
  have p1: "any_parcel one_proxy_state (Some 20) = (Some \<lparr>dataSize = 16\<rparr>, one_proxy_state)"
    and p2: "any_parcel one_proxy_state None = (None, one_proxy_state)"
    by (simp_all add: any_parcel_def)
  show ?thesis
    using transact_error_policy [where parcelFor = any_parcel and s = one_proxy_state
        and target = 2 and err = DEAD_OBJECT and code = 1 and flags = 0, OF p1 p2 _ d]
    by (simp add: Let_def jniThrowException_def one_proxy_state_def init_state_def)
qed

subsection \<open>Faults of a dispatched transaction\<close>

lemma report_exception_cases:
  "report_exception excep isError msg s =
     (if isError then Aborted
      else Returned (s\<lparr>pending := None, javaLog := javaLog s @ [(msg, excep)]\<rparr>))"
  by (simp add: report_exception_def report_java_lang_error_def
      report_java_lang_error_fatal_error_def)

text \<open>
  C7. A \<^verbatim>\<open>java.lang.Error\<close> left pending by the handler (\<open>execTransact\<close>) produces no
  status: the process is aborted. An ordinary exception left pending by the handler is
  logged and cleared and turned into the result false: the dispatch goes on exactly as
  if the handler had returned false in the state with the exception logged and none
  pending. It then answers \<open>UNKNOWN_TRANSACTION\<close> with no exception pending, unless a
  \<^verbatim>\<open>java.lang.Error\<close> is raised later in the same dispatch, by the strict-mode callback
  (run only if the thread's policy changed); such an error aborts the process whatever
  the handler did.
\<close>

theorem onTransact_fault_policy:
  "onTransact sp (Threw excep True) strict_policy_before strict_policy_after
      policyCallback s code flags = Aborted
   \<and> onTransact sp (Threw excep False) strict_policy_before strict_policy_after
        policyCallback s code flags
      = onTransact sp (Completed False) strict_policy_before strict_policy_after policyCallback
          (s\<lparr>pending := None,
             javaLog := javaLog s @
               [(''*** Uncaught remote exception!  (Exceptions are not yet supported across processes.)'',
                 excep)]\<rparr>)
          code flags
   \<and> (\<not> (strict_policy_after \<noteq> strict_policy_before \<and> throws_Error policyCallback) \<longrightarrow>
        (\<exists>s'. onTransact sp (Threw excep False) strict_policy_before strict_policy_after
                 policyCallback s code flags = Returned (UNKNOWN_TRANSACTION, s')
           \<and> pending s' = None
           \<and> take (Suc (length (javaLog s))) (javaLog s') = javaLog s @
               [(''*** Uncaught remote exception!  (Exceptions are not yet supported across processes.)'',
                 excep)]))
   \<and> (strict_policy_after \<noteq> strict_policy_before \<and> throws_Error policyCallback \<longrightarrow>
        (\<forall>h. onTransact sp h strict_policy_before strict_policy_after
                policyCallback s code flags = Aborted))"
proof (intro conjI impI allI)
  show "onTransact sp (Threw excep True) strict_policy_before strict_policy_after
      policyCallback s code flags = Aborted"
    by (simp add: onTransact_def report_exception_cases)
next
  show "onTransact sp (Threw excep False) strict_policy_before strict_policy_after
        policyCallback s code flags
      = onTransact sp (Completed False) strict_policy_before strict_policy_after policyCallback
          (s\<lparr>pending := None,
             javaLog := javaLog s @
               [(''*** Uncaught remote exception!  (Exceptions are not yet supported across processes.)'',
                 excep)]\<rparr>)
          code flags"
    by (simp add: onTransact_def report_exception_cases)
next
  assume c: "\<not> (strict_policy_after \<noteq> strict_policy_before \<and> throws_Error policyCallback)"
  show "\<exists>s'. onTransact sp (Threw excep False) strict_policy_before strict_policy_after
                 policyCallback s code flags = Returned (UNKNOWN_TRANSACTION, s')
           \<and> pending s' = None
           \<and> take (Suc (length (javaLog s))) (javaLog s') = javaLog s @
               [(''*** Uncaught remote exception!  (Exceptions are not yet supported across processes.)'',
                 excep)]"
  proof (cases policyCallback)
    case (Completed u)
    then show ?thesis
      by (simp add: onTransact_def report_exception_cases)
  next
    case (Threw e b)
    with c show ?thesis
      by (cases b) (auto simp: onTransact_def report_exception_cases)
  qed
next
  fix h
  assume c: "strict_policy_after \<noteq> strict_policy_before \<and> throws_Error policyCallback"
  then obtain e where e: "policyCallback = Threw e True"
    by (cases policyCallback) auto
  show "onTransact sp h strict_policy_before strict_policy_after policyCallback s code flags
          = Aborted"
  proof (cases h)
    case (Completed r)
    with c e show ?thesis
      by (simp add: onTransact_def report_exception_cases)
  next
    case (Threw x b)
    with c e show ?thesis
      by (cases b) (simp_all add: onTransact_def report_exception_cases)
  qed
qed

theorem onTransact_fault_policy_witness:
  "onTransact 99 (Threw (JThrowable ''java/lang/IllegalStateException'' None) False) 0 0
      (Completed ()) init_state 1 0
     = Returned (UNKNOWN_TRANSACTION,
         init_state\<lparr>javaLog :=
           [(''*** Uncaught remote exception!  (Exceptions are not yet supported across processes.)'',
             JThrowable ''java/lang/IllegalStateException'' None)]\<rparr>)
   \<and> onTransact 99 (Threw (JThrowable ''java/lang/StackOverflowError'' None) True) 0 0
        (Completed ()) init_state 1 0 = Aborted"
  using onTransact_fault_policy [of 99 "JThrowable ''java/lang/IllegalStateException'' None"
      0 0 "Completed ()" init_state 1 0]
    onTransact_fault_policy [of 99 "JThrowable ''java/lang/StackOverflowError'' None"
      0 0 "Completed ()" init_state 1 0]
  by (simp add: onTransact_def report_exception_cases init_state_def)

subsection \<open>Death notification\<close>

lemma binderDied_cleared:
  assumes "recipients s this = Some jdr" and "jdr_mObject jdr = None"
  shows "binderDied c this s = Returned s"
  using assms by (simp add: binderDied_def)

lemma binderDied_delivers:
  assumes "recipients s this = Some jdr" and "jdr_mObject jdr = Some obj"
    and "lists s (jdr_mList jdr) \<noteq> None" and "\<not> throws_Error c"
  shows "\<exists>s'. binderDied c this s = Returned s'
           \<and> recipients s' this = Some (jdr\<lparr>jdr_mObjectWeak := Some obj, jdr_mObject := None\<rparr>)
           \<and> notices s' = notices s @ [(this, obj)]
           \<and> lists s' = lists s \<and> pending s' = (case c of Completed u \<Rightarrow> pending s | Threw e b \<Rightarrow> None)
           \<and> gcCleared s' = gcCleared s \<and> nativeData s' = nativeData s
           \<and> jheap s' = jheap s \<and> binders s' = binders s
           \<and> (\<forall>a. a \<noteq> this \<longrightarrow> recipients s' a = recipients s a)"
  using assms
  by (cases c) (auto simp: binderDied_def report_exception_cases)

lemma binderDied_aborts:
  assumes "recipients s this = Some jdr" and "jdr_mObject jdr = Some obj" and "throws_Error c"
  shows "binderDied c this s = Aborted"
  using assms
  by (cases c) (auto simp: binderDied_def report_exception_cases)

lemma binderDied_events_cleared:
  assumes "recipients s this = Some jdr" and "jdr_mObject jdr = None"
  shows "binderDied_events cs this s = Returned s"
  using assms by (induction cs) (simp_all add: binderDied_cleared)

lemma binderDied_events_Cons:
  assumes s: "recipients s this = Some jdr" "lists s (jdr_mList jdr) \<noteq> None"
    and obj: "jdr_mObject jdr = Some obj"
    and c: "\<not> throws_Error c"
  shows "\<exists>s'. binderDied_events (c # cs) this s = Returned s'
           \<and> notices s' = notices s @ [(this, obj)]
           \<and> recipients s' this = Some (jdr\<lparr>jdr_mObjectWeak := Some obj, jdr_mObject := None\<rparr>)"
proof -
  from binderDied_delivers [OF s(1) obj s(2) c]
  obtain s1 where s1: "binderDied c this s = Returned s1"
      "recipients s1 this = Some (jdr\<lparr>jdr_mObjectWeak := Some obj, jdr_mObject := None\<rparr>)"
      "notices s1 = notices s @ [(this, obj)]"
    by blast
  have "binderDied_events cs this s1 = Returned s1"
    by (rule binderDied_events_cleared [OF s1(2)]) simp
  with s1 show ?thesis
    by simp
qed

text \<open>
  C3. A registered death watcher is a JavaDeathRecipient in the store whose
  DeathRecipientList is alive. Take any sequence of peer-death events for it. If the
  watcher was notified before (its strong reference is null), nothing is delivered. If
  it was not, the first event delivers one notice, and, unless \<^verbatim>\<open>sendDeathNotice\<close> throws
  a \<^verbatim>\<open>java.lang.Error\<close>, clears the strong reference, so that all later events deliver
  nothing: the whole sequence adds exactly one notice from this watcher. If the first
  delivery throws a \<^verbatim>\<open>java.lang.Error\<close> the process is aborted there.
\<close>

theorem death_notice_at_most_once:
  assumes "recipients s this = Some jdr" and "lists s (jdr_mList jdr) \<noteq> None"
  shows "(jdr_mObject jdr = None \<longrightarrow> binderDied_events cs this s = Returned s)
       \<and> (\<forall>obj. jdr_mObject jdr = Some obj \<longrightarrow> \<not> throws_Error c \<longrightarrow>
             (\<exists>s'. binderDied_events (c # cs) this s = Returned s'
                \<and> notices s' = notices s @ [(this, obj)]
                \<and> notices_from this s' = notices_from this s + 1
                \<and> recipients s' this =
                    Some (jdr\<lparr>jdr_mObjectWeak := Some obj, jdr_mObject := None\<rparr>)))
       \<and> (jdr_mObject jdr \<noteq> None \<longrightarrow> throws_Error c \<longrightarrow>
             binderDied_events (c # cs) this s = Aborted)"
proof (intro conjI impI allI)
  assume "jdr_mObject jdr = None"
  with assms(1) show "binderDied_events cs this s = Returned s"
    by (rule binderDied_events_cleared)
next
  fix obj
  assume obj: "jdr_mObject jdr = Some obj" and c: "\<not> throws_Error c"
  from binderDied_events_Cons [OF assms obj c, of cs]
  show "\<exists>s'. binderDied_events (c # cs) this s = Returned s'
                \<and> notices s' = notices s @ [(this, obj)]
                \<and> notices_from this s' = notices_from this s + 1
                \<and> recipients s' this =
                    Some (jdr\<lparr>jdr_mObjectWeak := Some obj, jdr_mObject := None\<rparr>)"
    by (auto simp: notices_from_def)
next
  assume "jdr_mObject jdr \<noteq> None" and "throws_Error c"
  with assms(1) show "binderDied_events (c # cs) this s = Aborted"
    by (auto simp: binderDied_aborts)
qed

theorem death_notice_at_most_once_witness:
  "\<exists>s'. binderDied_events [Completed (), Completed (), Completed ()] 4 linked_state = Returned s'
      \<and> notices s' = [(4, 30)] \<and> notices_from 4 s' = 1"
proof -
  have r: "recipients linked_state 4 = Some \<lparr>jdr_mObject = Some 30, jdr_mObjectWeak = None, jdr_mList = 3\<rparr>"
    by (simp add: linked_state_def)
  have l: "lists linked_state (jdr_mList \<lparr>jdr_mObject = Some 30, jdr_mObjectWeak = None, jdr_mList = 3\<rparr>) \<noteq> None"
    by (simp add: linked_state_def)
  have n: "notices linked_state = []"
    by (simp add: linked_state_def one_proxy_state_def init_state_def)
  from death_notice_at_most_once [OF r l, of "[Completed (), Completed ()]" "Completed ()"]
  show ?thesis
    by (auto simp add: n notices_from_def simp del: binderDied_events.simps)
qed

subsection \<open>Linking and unlinking\<close>

lemma gcIfManyNewRefs_fields [simp]:
  "recipients (gcIfManyNewRefs s) = recipients s"
  "lists (gcIfManyNewRefs s) = lists s"
  "nativeData (gcIfManyNewRefs s) = nativeData s"
  "jheap (gcIfManyNewRefs s) = jheap s"
  "binders (gcIfManyNewRefs s) = binders s"
  "gcCleared (gcIfManyNewRefs s) = gcCleared s"
  "pending (gcIfManyNewRefs s) = pending s"
  "notices (gcIfManyNewRefs s) = notices s"
  "chanLog (gcIfManyNewRefs s) = chanLog s"
  "nextAddr (gcIfManyNewRefs s) = nextAddr s"
  "sProxyMap (gcIfManyNewRefs s) = sProxyMap s"
  "gNativeDataCache (gcIfManyNewRefs s) = gNativeDataCache s"
  "gNumProxies (gcIfManyNewRefs s) = gNumProxies s"
  "holders (gcIfManyNewRefs s) = holders s"
  "nextJobject (gcIfManyNewRefs s) = nextJobject s"
  by (simp_all add: gcIfManyNewRefs_def Let_def)

lemma derefNativeData_cong:
  "jheap s' = jheap s \<Longrightarrow> nativeData s' = nativeData s \<Longrightarrow> derefNativeData s' obj = derefNativeData s obj"
  by (simp add: derefNativeData_def getBPNativeData_def split: option.splits jobj.splits)

lemma matches_cong:
  "gcCleared s' = gcCleared s \<Longrightarrow> matches s' jdr r = matches s jdr r"
  by (simp add: matches_def NewLocalRef_of_weak_def split: option.splits)

lemma find_loop_none:
  "list_all (\<lambda>a. case recipients s a of None \<Rightarrow> False | Some jdr \<Rightarrow> \<not> matches s jdr r) mList
   \<Longrightarrow> find_loop s mList r = Returned None"
  by (induction mList) (auto split: option.splits)

lemma find_loop_some:
  assumes "a \<in> set mList" and "list_all (\<lambda>x. recipients s x \<noteq> None) mList"
    and "recipients s a = Some jdr" and "matches s jdr r"
  shows "\<exists>a'. find_loop s mList r = Returned (Some a')"
  using assms by (induction mList) auto

lemma linkToDeath_links:
  assumes "derefNativeData s obj = Some nd" and "mObject nd = Some target"
    and "mOrgue nd = Some list" and "binders s target = Some b" and "\<not> localBinder b"
    and "lists s list = Some mList"
  shows "android_os_BinderProxy_linkToDeath dps NO_ERROR s obj (Some r) flags =
     Returned (gcIfManyNewRefs
       (s\<lparr>recipients := (recipients s)(nextAddr s \<mapsto>
              \<lparr>jdr_mObject = Some r, jdr_mObjectWeak = None, jdr_mList = list\<rparr>),
           nextAddr := nextAddr s + 1,
           lists := (lists s)(list \<mapsto> mList @ [nextAddr s]),
           gNumDeathRefsCreated := gNumDeathRefsCreated s + 1\<rparr>)
       \<lparr>chanLog := chanLog s @ [ChanLinkToDeath target (nextAddr s) flags]\<rparr>)"
  using assms
  by (simp add: android_os_BinderProxy_linkToDeath_def new_JavaDeathRecipient_def
      DeathRecipientList_add_def Let_def)

lemma unlinkToDeath_dead_object:
  assumes "derefNativeData s obj = Some nd" and "mObject nd = Some target"
    and "mOrgue nd = Some list" and "binders s target = Some b" and "\<not> localBinder b"
    and "lists s list = Some mList" and "list_all (\<lambda>x. recipients s x \<noteq> None) mList"
    and "a \<in> set mList" and "recipients s a = Some jdr" and "matches s jdr (Some r)"
    and "fst reply = DEAD_OBJECT"
  shows "\<exists>a'. android_os_BinderProxy_unlinkToDeath reply s obj (Some r) flags =
           Returned (True, s\<lparr>chanLog := chanLog s @ [ChanUnlinkToDeath target a' flags]\<rparr>)"
proof -
  from find_loop_some [OF assms(8,7,9,10)]
  obtain a' where "find_loop s mList (Some r) = Returned (Some a')" ..
  with assms have "android_os_BinderProxy_unlinkToDeath reply s obj (Some r) flags =
           Returned (True, s\<lparr>chanLog := chanLog s @ [ChanUnlinkToDeath target a' flags]\<rparr>)"
    by (simp add: android_os_BinderProxy_unlinkToDeath_def DeathRecipientList_find_def)
  then show ?thesis ..
qed

text \<open>
  C4. On a proxy of a remote binder whose death-recipient list is well formed, link a
  watcher \<open>r\<close> that the caller keeps alive (the channel accepts the link), let the peer
  die and the watcher be notified. The JavaDeathRecipient stays in the list with a weak
  reference to \<open>r\<close>, so a later \<open>unlinkToDeath\<close> with \<open>r\<close>, which the channel answers with
  \<open>DEAD_OBJECT\<close> as the peer is dead, finds it and returns true, throwing nothing and
  leaving the list as it is; repeating the unlink returns true again.
\<close>

theorem unlink_after_death_succeeds:
  assumes nd: "derefNativeData s obj = Some nd" "mObject nd = Some target" "mOrgue nd = Some list"
    and b: "binders s target = Some b" "\<not> localBinder b"
    and l: "lists s list = Some mList" "list_all (\<lambda>x. recipients s x \<noteq> None) mList"
    and live: "r \<notin> gcCleared s"
    and notice: "\<not> throws_Error notice"
    and reply: "fst reply = DEAD_OBJECT"
  shows "\<exists>s1 s2 s3 s4.
           android_os_BinderProxy_linkToDeath dps NO_ERROR s obj (Some r) flags = Returned s1
         \<and> binderDied notice (nextAddr s) s1 = Returned s2
         \<and> notices s2 = notices s @ [(nextAddr s, r)]
         \<and> recipients s2 (nextAddr s) =
             Some \<lparr>jdr_mObject = None, jdr_mObjectWeak = Some r, jdr_mList = list\<rparr>
         \<and> android_os_BinderProxy_unlinkToDeath reply s2 obj (Some r) flags' = Returned (True, s3)
         \<and> pending s3 = pending s2 \<and> lists s3 = lists s2
         \<and> android_os_BinderProxy_unlinkToDeath reply s3 obj (Some r) flags' = Returned (True, s4)"
proof -
  let ?a0 = "nextAddr s"
  let ?jdr = "\<lparr>jdr_mObject = Some r, jdr_mObjectWeak = None, jdr_mList = list\<rparr>"
  let ?jdr' = "\<lparr>jdr_mObject = None, jdr_mObjectWeak = Some r, jdr_mList = list\<rparr>"
  define s1 where "s1 = gcIfManyNewRefs
       (s\<lparr>recipients := (recipients s)(?a0 \<mapsto> ?jdr),
           nextAddr := ?a0 + 1,
           lists := (lists s)(list \<mapsto> mList @ [?a0]),
           gNumDeathRefsCreated := gNumDeathRefsCreated s + 1\<rparr>)
       \<lparr>chanLog := chanLog s @ [ChanLinkToDeath target ?a0 flags]\<rparr>"
  have link: "android_os_BinderProxy_linkToDeath dps NO_ERROR s obj (Some r) flags = Returned s1"
    unfolding s1_def by (rule linkToDeath_links [OF nd b l(1)])
  have s1: "recipients s1 ?a0 = Some ?jdr" "lists s1 list = Some (mList @ [?a0])"
      "jheap s1 = jheap s" "nativeData s1 = nativeData s" "binders s1 = binders s"
      "gcCleared s1 = gcCleared s" "notices s1 = notices s"
      "\<And>a. a \<noteq> ?a0 \<Longrightarrow> recipients s1 a = recipients s a"
    by (simp_all add: s1_def)
  have "lists s1 (jdr_mList ?jdr) \<noteq> None"
    by (simp add: s1)
  from binderDied_delivers [OF s1(1) _ this notice, of r]
  obtain s2 where s2: "binderDied notice ?a0 s1 = Returned s2"
      "recipients s2 ?a0 = Some ?jdr'" "notices s2 = notices s1 @ [(?a0, r)]"
      "lists s2 = lists s1" "gcCleared s2 = gcCleared s1" "nativeData s2 = nativeData s1"
      "jheap s2 = jheap s1" "binders s2 = binders s1"
      "\<forall>a. a \<noteq> ?a0 \<longrightarrow> recipients s2 a = recipients s1 a"
    by auto
  have valid: "list_all (\<lambda>x. recipients s2 x \<noteq> None) (mList @ [?a0])"
    unfolding list_all_iff
  proof
    fix x assume x: "x \<in> set (mList @ [?a0])"
    show "recipients s2 x \<noteq> None"
    proof (cases "x = ?a0")
      case True
      then show ?thesis by (simp add: s2(2))
    next
      case False
      with x have "x \<in> set mList" by simp
      with l(2) have "recipients s x \<noteq> None" by (simp add: list_all_iff)
      with False s2(9) s1(8) show ?thesis by simp
    qed
  qed
  have m: "matches s2 ?jdr' (Some r)"
    using live by (simp add: matches_def IsSameObject_def NewLocalRef_of_weak_def s2(5) s1(6))
  have d2: "derefNativeData s2 obj = Some nd"
    using nd(1) derefNativeData_cong [of s2 s obj] by (simp add: s1 s2)
  have b2: "binders s2 target = Some b"
    using b(1) by (simp add: s1 s2)
  have l2: "lists s2 list = Some (mList @ [?a0])"
    by (simp add: s1 s2)
  from unlinkToDeath_dead_object [where flags = flags', OF d2 nd(2,3) b2 b(2) l2 valid _ s2(2) m reply]
  obtain a where u1: "android_os_BinderProxy_unlinkToDeath reply s2 obj (Some r) flags' =
      Returned (True, s2\<lparr>chanLog := chanLog s2 @ [ChanUnlinkToDeath target a flags']\<rparr>)"
    by auto
  let ?s3 = "s2\<lparr>chanLog := chanLog s2 @ [ChanUnlinkToDeath target a flags']\<rparr>"
  have d3: "derefNativeData ?s3 obj = Some nd"
    using d2 derefNativeData_cong [of ?s3 s2 obj] by simp
  have m3: "matches ?s3 ?jdr' (Some r)"
    using m matches_cong [of ?s3 s2] by simp
  have valid3: "list_all (\<lambda>x. recipients ?s3 x \<noteq> None) (mList @ [?a0])"
    using valid by simp
  from unlinkToDeath_dead_object [where s = ?s3 and flags = flags' and a = ?a0, OF d3 nd(2,3) _ b(2) _ valid3 _ _ m3 reply]
  obtain a2 where u2: "android_os_BinderProxy_unlinkToDeath reply ?s3 obj (Some r) flags' =
      Returned (True, ?s3\<lparr>chanLog := chanLog ?s3 @ [ChanUnlinkToDeath target a2 flags']\<rparr>)"
    using b2 l2 s2(2) by auto
  show ?thesis
    using link s2(1,2,3) s1(7) u1 u2 by (intro exI [of _ s1] exI [of _ s2] exI [of _ ?s3] exI) simp
qed

theorem unlink_after_death_succeeds_witness:
  "\<exists>s1 s2 s3 s4.
       android_os_BinderProxy_linkToDeath 0 NO_ERROR one_proxy_state 10 (Some 30) 0 = Returned s1
     \<and> binderDied (Completed ()) 4 s1 = Returned s2
     \<and> notices s2 = [(4, 30)]
     \<and> android_os_BinderProxy_unlinkToDeath (DEAD_OBJECT, None) s2 10 (Some 30) 0 = Returned (True, s3)
     \<and> android_os_BinderProxy_unlinkToDeath (DEAD_OBJECT, None) s3 10 (Some 30) 0 = Returned (True, s4)"
proof -
  have d: "derefNativeData one_proxy_state 10 = Some \<lparr>mObject = Some 2, mOrgue = Some 3\<rparr>"
    by (simp add: derefNativeData_def getBPNativeData_def one_proxy_state_def init_state_def)
  have f: "binders one_proxy_state 2 = Some BpBinder" "lists one_proxy_state 3 = Some []"
      "30 \<notin> gcCleared one_proxy_state" "nextAddr one_proxy_state = 4" "notices one_proxy_state = []"
    by (simp_all add: one_proxy_state_def init_state_def)
  from unlink_after_death_succeeds [OF d _ _ f(1) _ f(2) _ f(3),
      where notice = "Completed ()" and reply = "(DEAD_OBJECT, None)" and dps = 0
        and flags = 0 and flags' = 0]
  show ?thesis
    by (simp add: f) blast
qed

text \<open>
  C5, as amended to remote targets. On a proxy of a remote binder, \<open>unlinkToDeath\<close>
  with a watcher that no element of
  the death-recipient list matches returns false with \<^verbatim>\<open>NoSuchElementException\<close> pending.
  Nothing else changes: the list is as it was and the channel is not called.
\<close>

theorem unlink_never_linked_not_found:
  assumes "derefNativeData s obj = Some nd" and "mObject nd = Some target"
    and "mOrgue nd = Some list" and "binders s target = Some b" and "\<not> localBinder b"
    and "lists s list = Some mList"
    and "list_all (\<lambda>a. case recipients s a of None \<Rightarrow> False
                               | Some jdr \<Rightarrow> \<not> matches s jdr (Some r)) mList"
  shows "android_os_BinderProxy_unlinkToDeath reply s obj (Some r) flags =
           Returned (False,
             s\<lparr>pending := Some (JThrowable ''java/util/NoSuchElementException''
                                 (Some ''Death link does not exist''))\<rparr>)"
  using assms find_loop_none [of s "Some r" mList]
  by (simp add: android_os_BinderProxy_unlinkToDeath_def DeathRecipientList_find_def
      jniThrowException_def)

theorem unlink_never_linked_not_found_witness:
  "android_os_BinderProxy_unlinkToDeath (NO_ERROR, Some 4) linked_state 10 (Some 31) 0 =
     Returned (False,
       linked_state\<lparr>pending := Some (JThrowable ''java/util/NoSuchElementException''
                                      (Some ''Death link does not exist''))\<rparr>)"
proof -
  have d: "derefNativeData linked_state 10 = Some \<lparr>mObject = Some 2, mOrgue = Some 3\<rparr>"
    by (simp add: derefNativeData_def getBPNativeData_def linked_state_def one_proxy_state_def
        init_state_def)
  have f: "binders linked_state 2 = Some BpBinder" "lists linked_state 3 = Some [4]"
    by (simp_all add: linked_state_def one_proxy_state_def init_state_def)
  have n: "list_all (\<lambda>a. case recipients linked_state a of None \<Rightarrow> False
                               | Some jdr \<Rightarrow> \<not> matches linked_state jdr (Some 31)) [4]"
    by (simp add: linked_state_def matches_def IsSameObject_def)
  show ?thesis
    by (rule unlink_never_linked_not_found [OF d _ _ f(1) _ f(2) n]) simp_all
qed

text \<open>
  Without the restriction to remote targets C5 fails. On the proxy of a local binder (a
  BBinder of this process, for which no peer can die) whose death-recipient list is
  empty, \<open>unlinkToDeath\<close> with a watcher that was never linked skips the lookup: it
  returns false and leaves the state as it is, with no exception pending.
\<close>

theorem unlink_local_target_counterexample:
  "android_os_BinderProxy_unlinkToDeath (NAME_NOT_FOUND, None)
      (one_proxy_state\<lparr>binders := [2 \<mapsto> BBinder]\<rparr>) 10 (Some 31) 0
     = Returned (False, one_proxy_state\<lparr>binders := [2 \<mapsto> BBinder]\<rparr>)
   \<and> pending (one_proxy_state\<lparr>binders := [2 \<mapsto> BBinder]\<rparr>) = None
   \<and> lists (one_proxy_state\<lparr>binders := [2 \<mapsto> BBinder]\<rparr>) 3 = Some []"
  by (simp add: android_os_BinderProxy_unlinkToDeath_def derefNativeData_def
      getBPNativeData_def one_proxy_state_def init_state_def)

text \<open>
  C9. On a proxy whose target is a local binder (a BBinder of this process),
  \<open>linkToDeath\<close> with a non-null recipient returns with the state untouched: no
  JavaDeathRecipient is made, the list is unchanged, the channel is not called and no
  exception is pending that was not before.
\<close>

theorem linkToDeath_local_noop:
  assumes "derefNativeData s obj = Some nd" and "mObject nd = Some target"
    and "binders s target = Some b" and "localBinder b"
  shows "android_os_BinderProxy_linkToDeath dps err s obj (Some r) flags = Returned s"
  using assms by (simp add: android_os_BinderProxy_linkToDeath_def)

theorem linkToDeath_local_noop_witness:
  "android_os_BinderProxy_linkToDeath 0 DEAD_OBJECT (one_proxy_state\<lparr>binders := [2 \<mapsto> BBinder]\<rparr>)
      10 (Some 30) 0
     = Returned (one_proxy_state\<lparr>binders := [2 \<mapsto> BBinder]\<rparr>)"
proof -
  have d: "derefNativeData (one_proxy_state\<lparr>binders := [2 \<mapsto> BBinder]\<rparr>) 10
             = Some \<lparr>mObject = Some 2, mOrgue = Some 3\<rparr>"
    by (simp add: derefNativeData_def getBPNativeData_def one_proxy_state_def init_state_def)
  show ?thesis
    by (rule linkToDeath_local_noop [OF d, of 2 BBinder]) simp_all
qed

text \<open>
  C10. With a null recipient \<open>linkToDeath\<close> and \<open>unlinkToDeath\<close> throw
  \<^verbatim>\<open>NullPointerException\<close> before they look at the proxy: whatever the state and the
  proxy object, the only change is the pending exception, and \<open>unlinkToDeath\<close> returns
  false.
\<close>

theorem null_recipient_throws:
  "android_os_BinderProxy_linkToDeath dps err s obj None flags =
     Returned (s\<lparr>pending := Some (JThrowable ''java/lang/NullPointerException'' None)\<rparr>)
   \<and> android_os_BinderProxy_unlinkToDeath reply s obj None flags =
     Returned (False, s\<lparr>pending := Some (JThrowable ''java/lang/NullPointerException'' None)\<rparr>)"
  by (simp add: android_os_BinderProxy_linkToDeath_def android_os_BinderProxy_unlinkToDeath_def
      jniThrowNullPointerException_def jniThrowException_def)

theorem null_recipient_throws_witness:
  "android_os_BinderProxy_linkToDeath 0 NO_ERROR linked_state 10 None 0 =
     Returned (linked_state\<lparr>pending := Some (JThrowable ''java/lang/NullPointerException'' None)\<rparr>)
   \<and> lists (linked_state\<lparr>pending := Some (JThrowable ''java/lang/NullPointerException'' None)\<rparr>) 3
       = Some [4]"
  using null_recipient_throws [of 0 NO_ERROR linked_state 10 0]
  by (simp add: linked_state_def)

subsection \<open>Uniquing of proxies\<close>

lemma share_None: "(share k m = None) = (proxy_of m k = None)"
  by (induction k m rule: share.induct) (auto simp: proxy_of_def split: option.splits)

lemma share_Some:
  "share k m = Some (p, m') \<Longrightarrow>
     proxy_of m k = Some p \<and> map fst m' = map fst m \<and> map (\<lambda>e. fst (snd e)) m' = map (\<lambda>e. fst (snd e)) m"
  by (induction k m arbitrary: m' rule: share.induct)
     (auto simp: proxy_of_def split: option.splits if_splits)

lemma share_hit: "proxy_of m k = Some p \<Longrightarrow> \<exists>m'. share k m = Some (p, m')"
proof -
  assume h: "proxy_of m k = Some p"
  then have "share k m \<noteq> None" by (simp add: share_None)
  then obtain q m' where s: "share k m = Some (q, m')" by auto
  with share_Some [OF s] h show ?thesis by simp
qed

lemma proxy_of_keys: "(proxy_of m k = None) = (k \<notin> set (map fst m))"
  by (simp add: proxy_of_def map_of_eq_None_iff)

lemma proxy_of_share:
  "share k m = Some (p, m') \<Longrightarrow> proxy_of m' = proxy_of m"
  by (induction k m arbitrary: m' rule: share.induct)
     (auto simp: proxy_of_def fun_eq_iff split: option.splits if_splits)

lemma proxy_of_mem:
  "proxy_of m k = Some p \<Longrightarrow> \<exists>e \<in> set m. fst e = k \<and> fst (snd e) = p"
  by (force simp: proxy_of_def dest!: map_of_SomeD)

lemma proxy_of_append:
  "proxy_of m k = None \<Longrightarrow> proxy_of (m @ [(k, p, n)]) = (proxy_of m)(k \<mapsto> p)"
  by (auto simp: proxy_of_def fun_eq_iff map_add_def split: option.splits)

lemma entries_one:
  "distinct (map fst m) \<Longrightarrow> k \<in> set (map fst m) \<Longrightarrow> length (filter (\<lambda>e. fst e = k) m) = 1"
  by (induction m) (force simp: filter_empty_conv)+

lemma table_ok_proxy:
  assumes "table_ok s" and "proxy_of (sProxyMap s) v = Some p"
  shows "\<exists>nd. jheap s p = Some (JBinderProxy nd) \<and> nd < nextAddr s \<and> gNativeDataCache s \<noteq> Some nd"
proof -
  from proxy_of_mem [OF assms(2)] obtain e where "e \<in> set (sProxyMap s)" "fst (snd e) = p"
    by blast
  with assms(1) have "proxy_wf s p"
    by (auto simp: table_ok_def list_all_iff)
  then show ?thesis
    by (cases "jheap s p") (simp_all add: proxy_wf_def split: jobj.splits)
qed

lemma proxy_wf_mono:
  assumes "proxy_wf s p" and "nextJobject s \<le> nextJobject s'" and "nextAddr s \<le> nextAddr s'"
    and "\<forall>q < nextJobject s. jheap s' q = jheap s q"
    and "case gNativeDataCache s' of None \<Rightarrow> True
         | Some c \<Rightarrow> gNativeDataCache s = Some c \<or> nextAddr s \<le> c"
  shows "proxy_wf s' p"
proof -
  from assms(1) obtain nd where nd: "p < nextJobject s" "jheap s p = Some (JBinderProxy nd)"
      "nd < nextAddr s" "gNativeDataCache s \<noteq> Some nd"
    by (cases "jheap s p") (auto simp: proxy_wf_def split: jobj.splits)
  with assms(2-5) show ?thesis
    by (auto simp: proxy_wf_def split: option.splits)
qed

lemma resolve_hit:
  assumes ok: "table_ok s" and v: "proxied s v" and hit: "proxy_of (sProxyMap s) v = Some p"
  shows "\<exists>m'. share v (sProxyMap s) = Some (p, m') \<and>
     javaObjectForIBinder getInstance s (Some v) =
       Returned (Some p,
         case gNativeDataCache s of
           Some c \<Rightarrow> s\<lparr>sProxyMap := m'\<rparr>
         | None \<Rightarrow> s\<lparr>nativeData := (nativeData s)(nextAddr s \<mapsto> \<lparr>mObject = None, mOrgue = None\<rparr>),
                     nextAddr := nextAddr s + 1,
                     sProxyMap := m',
                     gNativeDataCache := Some (nextAddr s)\<rparr>)"
proof -
  from share_hit [OF hit] obtain m' where m': "share v (sProxyMap s) = Some (p, m')" ..
  from table_ok_proxy [OF ok hit] obtain nd where
    nd: "jheap s p = Some (JBinderProxy nd)" "nd < nextAddr s" "gNativeDataCache s \<noteq> Some nd"
    by blast
  from v obtain b where b: "binders s v = Some b" "\<not> checkSubclass_gBinderOffsets b"
    by (auto simp: proxied_def split: option.splits)
  from ok have pend: "pending s = None"
    by (simp add: table_ok_def)
  have "javaObjectForIBinder getInstance s (Some v) =
       Returned (Some p,
         case gNativeDataCache s of
           Some c \<Rightarrow> s\<lparr>sProxyMap := m'\<rparr>
         | None \<Rightarrow> s\<lparr>nativeData := (nativeData s)(nextAddr s \<mapsto> \<lparr>mObject = None, mOrgue = None\<rparr>),
                     nextAddr := nextAddr s + 1,
                     sProxyMap := m',
                     gNativeDataCache := Some (nextAddr s)\<rparr>)"
  proof (cases "gNativeDataCache s")
    case None
    with b m' nd pend show ?thesis
      by (simp add: javaObjectForIBinder_def getInstance_def new_BinderProxyNativeData_def
          getBPNativeData_def)
  next
    case (Some c)
    with b m' nd pend show ?thesis
      by (simp add: javaObjectForIBinder_def getInstance_def getBPNativeData_def)
  qed
  with m' show ?thesis by blast
qed

lemma resolve_miss:
  assumes ok: "table_ok s" and v: "proxied s v" and miss: "proxy_of (sProxyMap s) v = None"
  shows "\<exists>s'. javaObjectForIBinder getInstance s (Some v) = Returned (Some (nextJobject s), s')
     \<and> gNativeDataCache s' = None
     \<and> pending s' = None
     \<and> binders s' = binders s
     \<and> nextJobject s' = nextJobject s + 1
     \<and> sProxyMap s' = sProxyMap s @ [(v, nextJobject s, 1)]
     \<and> gNumProxies s' = gNumProxies s + 1
     \<and> (case gNativeDataCache s of
          Some c \<Rightarrow>
            jheap s' = (jheap s)(nextJobject s \<mapsto> JBinderProxy c)
            \<and> nativeData s' = (nativeData s)(c \<mapsto> \<lparr>mObject = Some v, mOrgue = Some (nextAddr s)\<rparr>)
            \<and> lists s' = (lists s)(nextAddr s \<mapsto> [])
            \<and> nextAddr s' = nextAddr s + 1
        | None \<Rightarrow>
            jheap s' = (jheap s)(nextJobject s \<mapsto> JBinderProxy (nextAddr s))
            \<and> nativeData s' = (nativeData s)(nextAddr s \<mapsto> \<lparr>mObject = Some v, mOrgue = Some (nextAddr s + 1)\<rparr>)
            \<and> lists s' = (lists s)(nextAddr s + 1 \<mapsto> [])
            \<and> nextAddr s' = nextAddr s + 2)"
proof -
  from miss have m: "share v (sProxyMap s) = None"
    by (simp add: share_None)
  from v obtain b where b: "binders s v = Some b" "\<not> checkSubclass_gBinderOffsets b"
    by (auto simp: proxied_def split: option.splits)
  from ok have pend: "pending s = None"
    by (simp add: table_ok_def)
  show ?thesis
  proof (cases "gNativeDataCache s")
    case None
    with b m pend show ?thesis
      by (simp add: javaObjectForIBinder_def getInstance_def new_BinderProxyNativeData_def
          new_DeathRecipientList_def getBPNativeData_def Let_def)
  next
    case (Some c)
    with ok have "nativeData s c = Some \<lparr>mObject = None, mOrgue = None\<rparr>"
      by (simp add: table_ok_def)
    with Some b m pend show ?thesis
      by (simp add: javaObjectForIBinder_def getInstance_def
          new_DeathRecipientList_def getBPNativeData_def Let_def)
  qed
qed

lemma resolve_step:
  assumes ok: "table_ok s" and v: "proxied s v"
  shows "\<exists>p s'. javaObjectForIBinder getInstance s (Some v) = Returned (Some p, s')
     \<and> table_ok s' \<and> binders s' = binders s
     \<and> proxy_of (sProxyMap s') v = Some p
     \<and> (\<forall>k q. proxy_of (sProxyMap s) k = Some q \<longrightarrow> proxy_of (sProxyMap s') k = Some q)"
proof (cases "proxy_of (sProxyMap s) v")
  case None
  from resolve_miss [OF ok v None] obtain s' where
    r: "javaObjectForIBinder getInstance s (Some v) = Returned (Some (nextJobject s), s')"
    and f: "gNativeDataCache s' = None" "pending s' = None" "binders s' = binders s"
      "nextJobject s' = nextJobject s + 1" "sProxyMap s' = sProxyMap s @ [(v, nextJobject s, 1)]"
    and g: "case gNativeDataCache s of
          Some c \<Rightarrow>
            jheap s' = (jheap s)(nextJobject s \<mapsto> JBinderProxy c)
            \<and> nextAddr s' = nextAddr s + 1
        | None \<Rightarrow>
            jheap s' = (jheap s)(nextJobject s \<mapsto> JBinderProxy (nextAddr s))
            \<and> nextAddr s' = nextAddr s + 2"
    by (auto split: option.splits)
  have old: "proxy_wf s' p" if "proxy_wf s p" for p
    using that g f(1,4) by (intro proxy_wf_mono [OF that]) (auto split: option.splits)
  have new: "proxy_wf s' (nextJobject s)"
    using g f(1,4) ok by (auto simp: proxy_wf_def table_ok_def split: option.splits)
  have "v \<notin> set (map fst (sProxyMap s))"
    using None by (simp add: proxy_of_keys)
  with ok old new f have "table_ok s'"
    by (auto simp: table_ok_def list_all_iff)
  moreover have "proxy_of (sProxyMap s') = (proxy_of (sProxyMap s))(v \<mapsto> nextJobject s)"
    by (simp add: f(5) proxy_of_append [OF None])
  ultimately show ?thesis
    using r f(3) None by auto
next
  case (Some p)
  from resolve_hit [OF ok v Some] obtain m' where
    m': "share v (sProxyMap s) = Some (p, m')"
    and r: "javaObjectForIBinder getInstance s (Some v) =
       Returned (Some p,
         case gNativeDataCache s of
           Some c \<Rightarrow> s\<lparr>sProxyMap := m'\<rparr>
         | None \<Rightarrow> s\<lparr>nativeData := (nativeData s)(nextAddr s \<mapsto> \<lparr>mObject = None, mOrgue = None\<rparr>),
                     nextAddr := nextAddr s + 1,
                     sProxyMap := m',
                     gNativeDataCache := Some (nextAddr s)\<rparr>)"
    by blast
  let ?s' = "case gNativeDataCache s of
           Some c \<Rightarrow> s\<lparr>sProxyMap := m'\<rparr>
         | None \<Rightarrow> s\<lparr>nativeData := (nativeData s)(nextAddr s \<mapsto> \<lparr>mObject = None, mOrgue = None\<rparr>),
                     nextAddr := nextAddr s + 1,
                     sProxyMap := m',
                     gNativeDataCache := Some (nextAddr s)\<rparr>"
  note k = share_Some [OF m']
  have f: "sProxyMap ?s' = m'" "binders ?s' = binders s" "pending ?s' = pending s"
    by (simp_all split: option.splits)
  have old: "proxy_wf ?s' q" if "proxy_wf s q" for q
    by (rule proxy_wf_mono [OF that]) (simp_all split: option.splits)
  have cache: "case gNativeDataCache ?s' of None \<Rightarrow> True
          | Some c \<Rightarrow> c < nextAddr ?s' \<and> nativeData ?s' c = Some \<lparr>mObject = None, mOrgue = None\<rparr>"
    using ok by (auto simp: table_ok_def split: option.splits)
  have "table_ok ?s'"
    unfolding table_ok_def f using ok k old cache
    by (auto simp: table_ok_def list_all_iff)
  moreover have "proxy_of (sProxyMap ?s') = proxy_of (sProxyMap s)"
    by (simp add: f proxy_of_share [OF m'])
  ultimately show ?thesis
    using r f(2) Some by auto
qed

lemma proxied_cong: "binders s' = binders s \<Longrightarrow> proxied s' = proxied s"
  by (simp add: proxied_def fun_eq_iff)

lemma resolve_all_run:
  assumes "table_ok s" and "list_all (proxied s) vs"
  shows "\<exists>s'. resolve_all s vs = Returned (map (proxy_of (sProxyMap s')) vs, s')
     \<and> table_ok s' \<and> binders s' = binders s
     \<and> (\<forall>v \<in> set vs. proxy_of (sProxyMap s') v \<noteq> None)
     \<and> (\<forall>k q. proxy_of (sProxyMap s) k = Some q \<longrightarrow> proxy_of (sProxyMap s') k = Some q)"
  using assms
proof (induction vs arbitrary: s)
  case Nil
  then show ?case by simp
next
  case (Cons v vs)
  from Cons.prems have v: "proxied s v" and vs: "list_all (proxied s) vs"
    by simp_all
  from resolve_step [OF Cons.prems(1) v] obtain p s1 where
    r: "javaObjectForIBinder getInstance s (Some v) = Returned (Some p, s1)"
    and s1: "table_ok s1" "binders s1 = binders s" "proxy_of (sProxyMap s1) v = Some p"
      "\<forall>k q. proxy_of (sProxyMap s) k = Some q \<longrightarrow> proxy_of (sProxyMap s1) k = Some q"
    by blast
  from vs have "list_all (proxied s1) vs"
    by (simp add: proxied_cong [OF s1(2)])
  from Cons.IH [OF s1(1) this] obtain s' where
    rs: "resolve_all s1 vs = Returned (map (proxy_of (sProxyMap s')) vs, s')"
    and s': "table_ok s'" "binders s' = binders s1"
      "\<forall>v \<in> set vs. proxy_of (sProxyMap s') v \<noteq> None"
      "\<forall>k q. proxy_of (sProxyMap s1) k = Some q \<longrightarrow> proxy_of (sProxyMap s') k = Some q"
    by blast
  from s1(3) s'(4) have p: "proxy_of (sProxyMap s') v = Some p"
    by blast
  have "resolve_all s (v # vs) = Returned (map (proxy_of (sProxyMap s')) (v # vs), s')"
    by (simp add: r rs p)
  with s1 s' p show ?case
    by (intro exI [of _ s']) auto
qed

text \<open>
  C1. Start from a state in which the native code and the table agree, and resolve a
  list of binders that go through the table, in the order in which the calls enter the
  critical section. Every call returns a proxy; two calls for the same binder return
  the same proxy object, whatever other binders are resolved in between; the table ends
  with exactly one entry for each binder resolved, and is again well formed.
\<close>

theorem resolve_same_proxy:
  assumes "table_ok s" and "list_all (proxied s) vs"
  shows "\<exists>rs s'. resolve_all s vs = Returned (rs, s') \<and> length rs = length vs
     \<and> (\<forall>i < length vs. \<forall>j < length vs. vs ! i = vs ! j \<longrightarrow> rs ! i = rs ! j \<and> rs ! i \<noteq> None)
     \<and> (\<forall>v \<in> set vs. entries_for v s' = 1)
     \<and> table_ok s'"
proof -
  from resolve_all_run [OF assms] obtain s' where
    r: "resolve_all s vs = Returned (map (proxy_of (sProxyMap s')) vs, s')"
    and s': "table_ok s'" "\<forall>v \<in> set vs. proxy_of (sProxyMap s') v \<noteq> None"
    by blast
  have "entries_for v s' = 1" if "v \<in> set vs" for v
  proof -
    from s'(2) that have "v \<in> set (map fst (sProxyMap s'))"
      using proxy_of_keys [of "sProxyMap s'" v] by blast
    with s'(1) show ?thesis
      unfolding entries_for_def by (intro entries_one) (simp_all add: table_ok_def)
  qed
  with r s' show ?thesis
    by (intro exI [of _ "map (proxy_of (sProxyMap s')) vs"] exI [of _ s']) auto
qed

theorem resolve_same_proxy_witness:
  "\<exists>rs s'. resolve_all remote_state [1, 2, 1] = Returned (rs, s')
      \<and> rs ! 0 = rs ! 2 \<and> rs ! 0 \<noteq> None \<and> entries_for 1 s' = 1"
proof -
  have ok: "table_ok remote_state"
    by (simp add: table_ok_def remote_state_def init_state_def)
  have vs: "list_all (proxied remote_state) [1, 2, 1]"
    by (simp add: proxied_def remote_state_def)
  from resolve_same_proxy [OF ok vs] obtain rs s' where
    r: "resolve_all remote_state [1, 2, 1] = Returned (rs, s')"
    and i: "\<forall>i < length [1, 2, 1::nat]. \<forall>j < length [1, 2, 1::nat].
              [1, 2, 1::nat] ! i = [1, 2, 1] ! j \<longrightarrow> rs ! i = rs ! j \<and> rs ! i \<noteq> None"
    and e: "\<forall>v \<in> set [1, 2, 1::nat]. entries_for v s' = 1"
    by blast
  have "rs ! 0 = rs ! 2 \<and> rs ! 0 \<noteq> None"
    by (rule i [rule_format, of 0 2]) simp_all
  moreover from e have "entries_for 1 s' = 1"
    by simp
  ultimately show ?thesis
    using r by blast
qed

text \<open>
  C8. In a state in which the native code and the table agree, a resolution through the
  table returns a proxy and treats the one-node cache as follows. When the table already
  has a proxy for the binder, that proxy is returned and no Java object is made; a
  cached node stays cached and nothing is allocated, and with an empty cache the one
  node allocated for the call becomes the cached node. When the table has no proxy, a
  new BinderProxy is made that owns the node (the cached one, or with an empty cache the
  one allocated for the call), the cache is empty afterwards, and the native-data store
  has gained no other node: no replacement is allocated.
\<close>

theorem native_data_cache_reuse:
  assumes "table_ok s" and "proxied s v"
  shows "\<exists>r s'. javaObjectForIBinder getInstance s (Some v) = Returned (Some r, s')
     \<and> (case proxy_of (sProxyMap s) v of
          Some p \<Rightarrow>
            r = p \<and> jheap s' = jheap s
            \<and> (case gNativeDataCache s of
                 Some c \<Rightarrow>
                   gNativeDataCache s' = Some c \<and> nativeData s' = nativeData s
                   \<and> nextAddr s' = nextAddr s
               | None \<Rightarrow>
                   gNativeDataCache s' = Some (nextAddr s)
                   \<and> nativeData s' = (nativeData s)(nextAddr s \<mapsto> \<lparr>mObject = None, mOrgue = None\<rparr>)
                   \<and> nextAddr s' = nextAddr s + 1)
        | None \<Rightarrow>
            r = nextJobject s \<and> gNativeDataCache s' = None
            \<and> (case gNativeDataCache s of
                 Some c \<Rightarrow>
                   jheap s' = (jheap s)(r \<mapsto> JBinderProxy c)
                   \<and> nativeData s' = (nativeData s)(c \<mapsto> \<lparr>mObject = Some v, mOrgue = Some (nextAddr s)\<rparr>)
               | None \<Rightarrow>
                   jheap s' = (jheap s)(r \<mapsto> JBinderProxy (nextAddr s))
                   \<and> nativeData s' = (nativeData s)(nextAddr s \<mapsto>
                        \<lparr>mObject = Some v, mOrgue = Some (nextAddr s + 1)\<rparr>)))"
proof (cases "proxy_of (sProxyMap s) v")
  case None
  from resolve_miss [OF assms None] show ?thesis
    by (auto simp: None split: option.splits)
next
  case (Some p)
  from resolve_hit [OF assms Some] obtain m' where
    r: "javaObjectForIBinder getInstance s (Some v) =
       Returned (Some p,
         case gNativeDataCache s of
           Some c \<Rightarrow> s\<lparr>sProxyMap := m'\<rparr>
         | None \<Rightarrow> s\<lparr>nativeData := (nativeData s)(nextAddr s \<mapsto> \<lparr>mObject = None, mOrgue = None\<rparr>),
                     nextAddr := nextAddr s + 1,
                     sProxyMap := m',
                     gNativeDataCache := Some (nextAddr s)\<rparr>)"
    by blast
  show ?thesis
    by (cases "gNativeDataCache s") (simp_all add: r Some)
qed

theorem native_data_cache_reuse_witness:
  "\<exists>s'. javaObjectForIBinder getInstance cached_state (Some 2) = Returned (Some 10, s')
      \<and> jheap s' = jheap cached_state \<and> gNativeDataCache s' = Some 4
      \<and> nativeData s' = nativeData cached_state \<and> nextAddr s' = 5"
proof -
  have ok: "table_ok cached_state"
    by (simp add: table_ok_def proxy_wf_def cached_state_def one_proxy_state_def init_state_def)
  have v: "proxied cached_state 2"
    by (simp add: proxied_def cached_state_def one_proxy_state_def)
  have f: "proxy_of (sProxyMap cached_state) 2 = Some 10" "gNativeDataCache cached_state = Some 4"
      "nextAddr cached_state = 5"
    by (simp_all add: proxy_of_def cached_state_def one_proxy_state_def)
  from native_data_cache_reuse [OF ok v] show ?thesis
    by (simp add: f)
qed

text \<open>
  C2. Expose a local Java Binder whose holder, if it still has a JavaBBinder, has the one
  made for this object. \<open>ibinderForJavaObject\<close> returns a JavaBBinder, and resolving
  that binder returns the Java Binder itself in the same state, whatever
  \<open>getInstance\<close> would do: it is not called. The table, the Java heap, the native-data
  store, the cache and the proxy count are as they were before the object was exposed.
\<close>

theorem local_object_round_trip:
  assumes "jheap s obj = Some (JBinder jbh)" and "holders s jbh = Some mBinder"
    and "case mBinder of None \<Rightarrow> True
         | Some w \<Rightarrow> (case binders s w of Some (JavaBBinder x) \<Rightarrow> x = obj | _ \<Rightarrow> True)"
  shows "\<exists>b s1. ibinderForJavaObject s (Some obj) = Returned (Some b, s1)
      \<and> javaObjectForIBinder getInst s1 (Some b) = Returned (Some obj, s1)
      \<and> sProxyMap s1 = sProxyMap s \<and> jheap s1 = jheap s \<and> nativeData s1 = nativeData s
      \<and> gNativeDataCache s1 = gNativeDataCache s \<and> gNumProxies s1 = gNumProxies s"
proof (cases "promote_JavaBBinder s mBinder")
  case None
  let ?b = "nextAddr s"
  let ?s1 = "(gcIfManyNewRefs (s\<lparr>binders := (binders s)(?b \<mapsto> JavaBBinder obj),
                 nextAddr := ?b + 1,
                 gNumLocalRefsCreated := gNumLocalRefsCreated s + 1\<rparr>))
             \<lparr>holders := (holders s)(jbh \<mapsto> Some ?b)\<rparr>"
  have "ibinderForJavaObject s (Some obj) = Returned (Some ?b, ?s1)"
    using assms(1,2) None
    by (simp add: ibinderForJavaObject_def JavaBBinderHolder_get_def new_JavaBBinder_def Let_def)
  moreover have "javaObjectForIBinder getInst ?s1 (Some ?b) = Returned (Some obj, ?s1)"
    by (simp add: javaObjectForIBinder_def)
  ultimately show ?thesis
    by (intro exI [of _ ?b] exI [of _ ?s1]) simp
next
  case (Some b)
  then have "mBinder = Some b" and "\<exists>x. binders s b = Some (JavaBBinder x)"
    by (auto simp: promote_JavaBBinder_def split: option.splits IBinder.splits)
  with assms(3) have b: "binders s b = Some (JavaBBinder obj)"
    by auto
  have "ibinderForJavaObject s (Some obj) = Returned (Some b, s)"
    using assms(1,2) Some
    by (simp add: ibinderForJavaObject_def JavaBBinderHolder_get_def)
  moreover have "javaObjectForIBinder getInst s (Some b) = Returned (Some obj, s)"
    using b by (simp add: javaObjectForIBinder_def)
  ultimately show ?thesis
    by (intro exI [of _ b] exI [of _ s]) simp
qed

theorem local_object_round_trip_witness:
  "\<exists>b s1. ibinderForJavaObject binder_state (Some 20) = Returned (Some b, s1)
      \<and> javaObjectForIBinder getInstance s1 (Some b) = Returned (Some 20, s1)
      \<and> sProxyMap s1 = [] \<and> gNumProxies s1 = 0"
proof -
  have h: "jheap binder_state 20 = Some (JBinder 1)" "holders binder_state 1 = Some None"
      "sProxyMap binder_state = []" "gNumProxies binder_state = 0"
    by (simp_all add: binder_state_def init_state_def)
  from local_object_round_trip [OF h(1,2), of getInstance]
  show ?thesis
    by (simp add: h(3,4)) blast
qed

end
